theory Spec2Isabelle
  imports Main "HOL-Library.AList" "HOL-Library.Sublist"
begin

section \<open>JavaScript values\<close>

text \<open>
  The gateway and the registry are JavaScript. A JavaScript string is a sequence of UTF-16
  code units; every string literal of the modelled code lies in Latin-1, so one code unit
  is one \<^typ>\<open>char\<close> here, the accented letters being written by their code
  (\<open>0xE7\<close> c-cedilla, \<open>0xE3\<close> a-tilde, \<open>0xED\<close> i-acute, \<open>0xE1\<close> a-acute,
  \<open>0xF3\<close> o-acute).

  Values that travel as JSON (request and response bodies) are dynamically typed. A
  number is held by its rendering, the text that \<open>String\<close> gives for it (\<open>12\<close>, \<open>-3\<close>,
  \<open>0.5\<close>, \<open>1e+21\<close>): the code does no arithmetic on a number from a body, it tests it
  and passes it on. An object is its list of own members in insertion order, read by its
  first member of a name.
\<close>

datatype json =
    JUndefined
  | JNull
  | JBool bool
  | JNum string
  | JStr string
  | JArr "json list"
  | JObj "(string \<times> json) list"

record response =
  status :: nat
  data :: json

text \<open>
  A thrown \<open>Error\<close> object: its \<open>message\<close>, the \<open>code\<close> that Node attaches to a
  socket error (\<open>ECONNREFUSED\<close>, ...) and the \<open>response\<close> that axios attaches when the
  downstream answered with a status outside 2xx.
\<close>

record js_error =
  message :: string
  code :: "string option"
  response :: "response option"

definition Error :: "string \<Rightarrow> js_error" where
  "Error msg = \<lparr>message = msg, code = None, response = None\<rparr>"

text \<open>\<open>s.startsWith(p)\<close>, \<open>s.includes(p)\<close> and \<open>s.replace(p, r)\<close> with a string pattern
  (the first occurrence only; no replacement below contains a \<open>$\<close> pattern).\<close>

definition startsWith :: "string \<Rightarrow> string \<Rightarrow> bool" where
  "startsWith s p = (take (length p) s = p)"

fun str_includes :: "string \<Rightarrow> string \<Rightarrow> bool" where
  "str_includes [] p = (p = [])"
| "str_includes (c # cs) p = (startsWith (c # cs) p \<or> str_includes cs p)"

fun replace :: "string \<Rightarrow> string \<Rightarrow> string \<Rightarrow> string" where
  "replace [] p r = (if p = [] then r else [])"
| "replace (c # cs) p r =
     (if startsWith (c # cs) p then r @ drop (length p) (c # cs) else c # replace cs p r)"

section \<open>The service registry (shared/serviceRegistry.js)\<close>

record service_info =
  url :: string
  version :: string
  endpoints :: "string list"

record service = service_info +
  registeredAt :: int
  lastHealthCheck :: int
  healthy :: bool
  pid :: nat

text \<open>
  The registry table is a JavaScript object from service name to record: an association
  list in insertion order. \<open>services[name] = v\<close> is \<^const>\<open>AList.update\<close> (in place if
  the name is there, appended otherwise), \<open>delete services[name]\<close> is
  \<^const>\<open>AList.delete\<close>, and \<^const>\<open>map_of\<close> gives the own member of a name.
\<close>

type_synonym services = "(string \<times> service) list"

text \<open>
  The registry file \<open>services-registry.json\<close>, as the registry sees it:
  there is no file; the file cannot be read; its text is not JSON; or it is the JSON text
  of an object, given by its members in textual order. The type leaves out a file whose
  JSON is not an object of service records.
\<close>

datatype registry_file = Missing | Unreadable | Malformed | Json "(string \<times> service) list"

text \<open>
  The table is a plain object, so \<open>services[name]\<close> finds, besides the own members, the
  members that every object inherits from \<open>Object.prototype\<close>: eleven functions and, under
  \<open>__proto__\<close>, the prototype object itself.
\<close>

definition objectPrototype :: "string list" where
  "objectPrototype =
     [''constructor'', ''__defineGetter__'', ''__defineSetter__'', ''hasOwnProperty'',
      ''__lookupGetter__'', ''__lookupSetter__'', ''isPrototypeOf'', ''propertyIsEnumerable'',
      ''toString'', ''valueOf'', ''__proto__'', ''toLocaleString'']"

text \<open>
  What the registry reads and writes: the file, with \<open>writable\<close> saying whether
  \<open>fs.writeFileSync\<close> succeeds, and, in the memory of the process, the \<open>healthy\<close> member
  that \<open>updateHealth\<close> may have set on \<open>Object.prototype\<close> (\<open>protoHealthy\<close>, at first
  undefined, which tests as false) or on one of the inherited functions
  (\<open>memberHealthy\<close>, at first none).
\<close>

record registry_state =
  registryFile :: registry_file
  writable :: bool
  protoHealthy :: bool
  memberHealthy :: "(string \<times> bool) list"

text \<open>\<open>services[name]\<close>: an own member, an inherited one, or \<open>undefined\<close>.\<close>

datatype member = Own service | Inherited | Absent

definition getMember :: "services \<Rightarrow> string \<Rightarrow> member" where
  "getMember srv name =
     (case map_of srv name of
        Some s \<Rightarrow> Own s
      | None \<Rightarrow> if name \<in> set objectPrototype then Inherited else Absent)"

text \<open>\<open>services[name].healthy\<close> for an inherited member: its own \<open>healthy\<close> if one was set,
  else the one it inherits from \<open>Object.prototype\<close>.\<close>

definition inheritedHealthy :: "registry_state \<Rightarrow> string \<Rightarrow> bool" where
  "inheritedHealthy d name =
     (if name = ''__proto__'' then protoHealthy d
      else case map_of (memberHealthy d) name of Some h \<Rightarrow> h | None \<Rightarrow> protoHealthy d)"

text \<open>What \<open>discover\<close> returns: a record of the table or an inherited member. The callers
  read \<open>url\<close> from it inside a template literal, where the missing \<open>url\<close> of an inherited
  member prints as \<open>undefined\<close>.\<close>

datatype discovered = Registered service | InheritedMember string

fun urlOf :: "discovered \<Rightarrow> string" where
  "urlOf (Registered s) = url s"
| "urlOf (InheritedMember name) = ''undefined''"

text \<open>\<open>JSON.parse\<close> of an object text: the members are assigned in order, so the last
  member of a name gives its value. \<open>JSON.stringify\<close> lists the members of the object.\<close>

definition JSON_parse :: "(string \<times> service) list \<Rightarrow> services" where
  "JSON_parse members = fold (\<lambda>(name, v) obj. AList.update name v obj) members []"

definition JSON_stringify :: "services \<Rightarrow> (string \<times> service) list" where
  "JSON_stringify obj = obj"

text \<open>\<open>readRegistry\<close>: any exception of \<open>readFileSync\<close> or \<open>JSON.parse\<close> is caught and
  the empty object returned.\<close>

definition readRegistry :: "registry_state \<Rightarrow> services" where
  "readRegistry d =
     (case registryFile d of
        Json members \<Rightarrow> JSON_parse members
      | Missing \<Rightarrow> []
      | Unreadable \<Rightarrow> []
      | Malformed \<Rightarrow> [])"

text \<open>\<open>writeRegistry\<close>: an exception of \<open>writeFileSync\<close> is caught and logged.\<close>

definition writeRegistry :: "services \<Rightarrow> registry_state \<Rightarrow> registry_state" where
  "writeRegistry srv d = (if writable d then d\<lparr>registryFile := Json (JSON_stringify srv)\<rparr> else d)"

text \<open>\<open>ensureRegistryFile\<close>, run by the constructor when the module is loaded.\<close>

definition ensureRegistryFile :: "registry_state \<Rightarrow> registry_state" where
  "ensureRegistryFile d = (if registryFile d = Missing then writeRegistry [] d else d)"

text \<open>\<open>register\<close>; \<open>now\<close> is \<open>Date.now()\<close>, which the source reads for \<open>registeredAt\<close>
  and again for \<open>lastHealthCheck\<close> within the same statement, and \<open>p\<close> is \<open>process.pid\<close>.
  Assigning to \<open>__proto__\<close> where the table has no own member of that name replaces the
  prototype of the local object and adds no member.\<close>

definition register :: "string \<Rightarrow> service_info \<Rightarrow> int \<Rightarrow> nat \<Rightarrow> registry_state \<Rightarrow> registry_state" where
  "register serviceName serviceInfo now p d =
     (let srv = readRegistry d;
          record = \<lparr>url = url serviceInfo, version = version serviceInfo,
                    endpoints = endpoints serviceInfo,
                    registeredAt = now, lastHealthCheck = now, healthy = True, pid = p\<rparr>;
          srv' = (if serviceName = ''__proto__'' \<and> map_of srv serviceName = None then srv
                  else AList.update serviceName record srv)
      in writeRegistry srv' d)"

definition notFoundMessage :: "string \<Rightarrow> string" where
  "notFoundMessage serviceName =
     ''Servi'' @ [CHR 0xE7] @ ''o n'' @ [CHR 0xE3] @ ''o encontrado: '' @ serviceName"

definition unavailableMessage :: "string \<Rightarrow> string" where
  "unavailableMessage serviceName =
     ''Servi'' @ [CHR 0xE7] @ ''o indispon'' @ [CHR 0xED] @ ''vel: '' @ serviceName"

text \<open>\<open>discover\<close>: one read of the table, then one of two throws or what was found.\<close>

definition discover :: "string \<Rightarrow> registry_state \<Rightarrow> js_error + discovered" where
  "discover serviceName d =
     (let srv = readRegistry d in
      case getMember srv serviceName of
        Absent \<Rightarrow> Inl (Error (notFoundMessage serviceName))
      | Own s \<Rightarrow>
          if \<not> healthy s then Inl (Error (unavailableMessage serviceName))
          else Inr (Registered s)
      | Inherited \<Rightarrow>
          if \<not> inheritedHealthy d serviceName
          then Inl (Error (unavailableMessage serviceName))
          else Inr (InheritedMember serviceName))"

text \<open>\<open>unregister\<close>: \<open>delete\<close> removes an own member only, so for an inherited name the
  table is written back as it was and the answer is still \<open>true\<close>.\<close>

definition unregister :: "string \<Rightarrow> registry_state \<Rightarrow> bool \<times> registry_state" where
  "unregister serviceName d =
     (let srv = readRegistry d in
      case getMember srv serviceName of
        Own s \<Rightarrow> (True, writeRegistry (AList.delete serviceName srv) d)
      | Inherited \<Rightarrow> (True, writeRegistry srv d)
      | Absent \<Rightarrow> (False, d))"

text \<open>\<open>updateHealth\<close>: for an inherited name the two assignments land on the inherited
  object, in the memory of the process, and the table is written back as it was. (The
  time stamp set there beside \<open>healthy\<close> is read by nothing.)\<close>

definition updateHealth :: "string \<Rightarrow> bool \<Rightarrow> int \<Rightarrow> registry_state \<Rightarrow> registry_state" where
  "updateHealth serviceName h now d =
     (let srv = readRegistry d in
      case getMember srv serviceName of
        Own s \<Rightarrow>
          writeRegistry
            (AList.update serviceName (s\<lparr>healthy := h, lastHealthCheck := now\<rparr>) srv) d
      | Inherited \<Rightarrow>
          writeRegistry srv
            (if serviceName = ''__proto__'' then d\<lparr>protoHealthy := h\<rparr>
             else d\<lparr>memberHealthy := AList.update serviceName h (memberHealthy d)\<rparr>)
      | Absent \<Rightarrow> d)"

text \<open>\<open>hasService\<close> asks the table for its own members only. The method
  \<open>hasOwnProperty\<close> is itself read from the table, so a service registered under
  that name hides it and the call throws.\<close>

definition hasService :: "string \<Rightarrow> registry_state \<Rightarrow> js_error + bool" where
  "hasService serviceName d =
     (let srv = readRegistry d in
      if map_of srv ''hasOwnProperty'' \<noteq> None
      then Inl (Error ''services.hasOwnProperty is not a function'')
      else Inr (map_of srv serviceName \<noteq> None))"

text \<open>\<open>getStats\<close>: total, healthy and unhealthy counts.\<close>

definition getStats :: "registry_state \<Rightarrow> nat \<times> nat \<times> nat" where
  "getStats d =
     (let srv = readRegistry d
      in (length srv,
          length (filter (\<lambda>(name, s). healthy s) srv),
          length (filter (\<lambda>(name, s). \<not> healthy s) srv)))"

text \<open>
  \<open>cleanup\<close>: the loop runs over \<open>Object.entries(services)\<close>, a snapshot taken before the
  first deletion, and deletes from the object by name. The result is written only when
  something was deleted. \<open>currentPid\<close> is \<open>process.pid\<close>.
\<close>

fun cleanup_loop :: "nat \<Rightarrow> (string \<times> service) list \<Rightarrow> services \<times> bool \<Rightarrow> services \<times> bool" where
  "cleanup_loop currentPid [] (srv, changed) = (srv, changed)"
| "cleanup_loop currentPid ((name, s) # entries) (srv, changed) =
     (if pid s = currentPid
      then cleanup_loop currentPid entries (AList.delete name srv, True)
      else cleanup_loop currentPid entries (srv, changed))"

definition cleanup :: "nat \<Rightarrow> registry_state \<Rightarrow> registry_state" where
  "cleanup currentPid d =
     (let srv = readRegistry d;
          (srv', changed) = cleanup_loop currentPid srv (srv, False)
      in if changed then writeRegistry srv' d else d)"

section \<open>The gateway (api-gateway/server.js)\<close>

subsection \<open>Reading JSON values\<close>

text \<open>Decimal digits, for an array or string length and for the clock.\<close>

definition digit_char :: "nat \<Rightarrow> char" where
  "digit_char k = ''0123456789'' ! k"

fun show_nat :: "nat \<Rightarrow> string" where
  "show_nat n = (if n < 10 then [digit_char n] else show_nat (n div 10) @ [digit_char (n mod 10)])"

definition show_int :: "int \<Rightarrow> string" where
  "show_int i = (if i < 0 then CHR ''-'' # show_nat (nat (- i)) else show_nat (nat i))"

text \<open>
  \<open>String(v)\<close>, as a template literal applies it. An array is joined with commas, its
  \<open>null\<close> elements printing as nothing. An object prints through the \<open>toString\<close> it
  inherits unless it has an own member of that name: a member of a JSON object is never a
  function, the inherited \<open>valueOf\<close> gives the object back, and the conversion throws.
\<close>

definition cannotConvert :: js_error where
  "cannotConvert = Error ''Cannot convert object to primitive value''"

fun toStr :: "json \<Rightarrow> js_error + string" and joinStr :: "json list \<Rightarrow> js_error + string" where
  "toStr JUndefined = Inr ''undefined''"
| "toStr JNull = Inr ''null''"
| "toStr (JBool b) = Inr (if b then ''true'' else ''false'')"
| "toStr (JNum n) = Inr n"
| "toStr (JStr s) = Inr s"
| "toStr (JArr xs) = joinStr xs"
| "toStr (JObj ms) =
     (if map_of ms ''toString'' = None then Inr ''[object Object]'' else Inl cannotConvert)"
| "joinStr [] = Inr []"
| "joinStr (x # xs) =
     (case (if x = JUndefined \<or> x = JNull then Inr [] else toStr x) of
        Inl error \<Rightarrow> Inl error
      | Inr s \<Rightarrow>
          if xs = [] then Inr s
          else case joinStr xs of
                 Inl error \<Rightarrow> Inl error
               | Inr t \<Rightarrow> Inr (s @ '','' @ t))"

text \<open>The \<open>TypeError\<close> the engine throws when a member of \<open>undefined\<close> or \<open>null\<close> is read.\<close>

definition TypeError :: "string \<Rightarrow> string \<Rightarrow> js_error" where
  "TypeError what p =
     Error (''Cannot read properties of '' @ what @ '' (reading '' @ [CHR 0x27] @ p @ [CHR 0x27] @ '')'')"

text \<open>\<open>v.p\<close>, \<open>v?.p\<close>, truthiness and \<open>a || b\<close>. The member names that the source reads
  from a body (\<open>database\<close>, \<open>data\<close>, \<open>length\<close>, \<open>success\<close>, ...) are none of them inherited
  from a prototype, so the own members decide.\<close>

fun getProp :: "json \<Rightarrow> string \<Rightarrow> js_error + json" where
  "getProp JUndefined p = Inl (TypeError ''undefined'' p)"
| "getProp JNull p = Inl (TypeError ''null'' p)"
| "getProp (JObj ms) p = Inr (case map_of ms p of Some v \<Rightarrow> v | None \<Rightarrow> JUndefined)"
| "getProp (JArr xs) p = Inr (if p = ''length'' then JNum (show_nat (length xs)) else JUndefined)"
| "getProp (JStr s) p = Inr (if p = ''length'' then JNum (show_nat (length s)) else JUndefined)"
| "getProp (JBool b) p = Inr JUndefined"
| "getProp (JNum n) p = Inr JUndefined"

definition optProp :: "json \<Rightarrow> string \<Rightarrow> json" where
  "optProp v p = (case getProp v p of Inl e \<Rightarrow> JUndefined | Inr x \<Rightarrow> x)"

fun truthy :: "json \<Rightarrow> bool" where
  "truthy JUndefined = False"
| "truthy JNull = False"
| "truthy (JBool b) = b"
| "truthy (JNum n) = (n \<noteq> ''0'' \<and> n \<noteq> ''NaN'')"
| "truthy (JStr s) = (s \<noteq> [])"
| "truthy (JArr xs) = True"
| "truthy (JObj ms) = True"

definition orElse :: "json \<Rightarrow> json \<Rightarrow> json" where
  "orElse a b = (if truthy a then a else b)"

subsection \<open>Outbound calls\<close>

text \<open>An axios request: \<open>verb\<close> is its \<open>method\<close>, \<open>target\<close> its \<open>url\<close>, \<open>payload\<close> its \<open>data\<close>.\<close>

record request =
  verb :: string
  target :: string
  payload :: json
  headers :: "(string \<times> string) list"
  params :: "(string \<times> json) list"
  timeout :: "nat option"

text \<open>
  What lies outside the process: the clock that \<open>Date.now()\<close> reads and the requests
  sent so far. The network answers a request issued at a time with what axios makes of it
  (a resolved response, or the rejection: a socket error, a timeout, a status outside 2xx
  with the response attached) and with the time that took.
\<close>

record world =
  clock :: int
  sent :: "request list"

type_synonym network = "request \<Rightarrow> int \<Rightarrow> (js_error + response) \<times> nat"

definition axios :: "network \<Rightarrow> request \<Rightarrow> world \<Rightarrow> (js_error + response) \<times> world" where
  "axios net req w =
     (case net req (clock w) of
        (r, dt) \<Rightarrow> (r, \<lparr>clock = clock w + int dt, sent = sent w @ [req]\<rparr>))"

definition axios_get :: "network \<Rightarrow> string \<Rightarrow> (string \<times> string) list \<Rightarrow> (string \<times> json) list
    \<Rightarrow> nat option \<Rightarrow> world \<Rightarrow> (js_error + response) \<times> world" where
  "axios_get net u hs ps t w =
     axios net \<lparr>verb = ''GET'', target = u, payload = JUndefined, headers = hs,
                params = ps, timeout = t\<rparr> w"

definition axios_post :: "network \<Rightarrow> string \<Rightarrow> json \<Rightarrow> nat option \<Rightarrow> world
    \<Rightarrow> (js_error + response) \<times> world" where
  "axios_post net u body t w =
     axios net \<lparr>verb = ''POST'', target = u, payload = body, headers = [],
                params = [], timeout = t\<rparr> w"

subsection \<open>Circuit breaker\<close>

text \<open>The states are the strings \<open>closed\<close>, \<open>open\<close> and \<open>half-open\<close>.\<close>

datatype cb_state = Closed | Open | HalfOpen

record circuitBreaker =
  state :: cb_state
  failureCount :: nat
  lastFailTime :: int

type_synonym circuitBreakers = "string \<rightharpoonup> circuitBreaker"

definition getCircuitBreaker :: "string \<Rightarrow> circuitBreakers \<Rightarrow> circuitBreaker \<times> circuitBreakers" where
  "getCircuitBreaker serviceName cbs =
     (case cbs serviceName of
        None \<Rightarrow>
          (let fresh = \<lparr>state = Closed, failureCount = 0, lastFailTime = 0\<rparr>
           in (fresh, cbs(serviceName \<mapsto> fresh)))
      | Some cb \<Rightarrow> (cb, cbs))"

definition circuitOpenMessage :: "string \<Rightarrow> string" where
  "circuitOpenMessage serviceName = ''Circuit breaker aberto para '' @ serviceName"

text \<open>
  \<open>executeWithCircuitBreaker\<close>. The operation is any computation on the world that
  returns or throws; it runs while the breaker table is as the check before it left it,
  and may read that table. The breaker object is mutated in place in the source; here it
  is stored back under its name. One call runs to its end before the next starts.
\<close>

definition executeWithCircuitBreaker ::
    "string \<Rightarrow> (circuitBreakers \<Rightarrow> world \<Rightarrow> (js_error + 'a) \<times> world)
     \<Rightarrow> circuitBreakers \<times> world \<Rightarrow> (js_error + 'a) \<times> circuitBreakers \<times> world" where
  "executeWithCircuitBreaker serviceName operation gw =
     (case gw of (cbs, w) \<Rightarrow>
      case getCircuitBreaker serviceName cbs of (cb, cbs1) \<Rightarrow>
        if state cb = Open \<and> \<not> (clock w - lastFailTime cb > 30000)
        then (Inl (Error (circuitOpenMessage serviceName)), cbs1, w)
        else
          let cb1 = (if state cb = Open then cb\<lparr>state := HalfOpen\<rparr> else cb);
              cbs2 = cbs1(serviceName \<mapsto> cb1)
          in
          case operation cbs2 w of
            (Inr result, w') \<Rightarrow>
              (Inr result,
               cbs2(serviceName \<mapsto>
                 (if state cb1 = HalfOpen then cb1\<lparr>state := Closed, failureCount := 0\<rparr>
                  else cb1)),
               w')
          | (Inl error, w') \<Rightarrow>
              (let cb2 = cb1\<lparr>failureCount := failureCount cb1 + 1, lastFailTime := clock w'\<rparr>;
                   cb3 = (if failureCount cb2 \<ge> 3 then cb2\<lparr>state := Open\<rparr> else cb2)
               in (Inl error, cbs2(serviceName \<mapsto> cb3), w')))"

subsection \<open>Requests and replies of the gateway\<close>

text \<open>The Express request (header names in lower case, as Node delivers them) and what
  the handler sends back with \<open>res.set\<close>, \<open>res.status\<close> and \<open>res.json\<close>.\<close>

record inbound =
  httpMethod :: string
  originalUrl :: string
  body :: json
  reqHeaders :: "(string \<times> string) list"

record reply =
  statusCode :: nat
  resHeaders :: "(string \<times> string) list"
  sentBody :: json

subsection \<open>Proxy\<close>

definition rewritePath :: "string \<Rightarrow> string" where
  "rewritePath targetPath =
     (if startsWith targetPath ''/api/users'' then replace targetPath ''/api/users'' ''/users''
      else if startsWith targetPath ''/api/auth'' then replace targetPath ''/api/auth'' ''/auth''
      else if startsWith targetPath ''/api/items'' then replace targetPath ''/api/items'' ''/items''
      else if startsWith targetPath ''/api/categories''
        then replace targetPath ''/api/categories'' ''/categories''
      else if startsWith targetPath ''/api/lists'' then replace targetPath ''/api/lists'' ''/lists''
      else targetPath)"

text \<open>The \<open>catch\<close> block of \<open>proxyToService\<close>: the thrown error is classified by its
  message, then its code, then its attached response.\<close>

definition proxyFailure :: "string \<Rightarrow> js_error \<Rightarrow> reply" where
  "proxyFailure serviceName error =
     (if str_includes (message error) ''Circuit breaker aberto'' then
        \<lparr>statusCode = 503, resHeaders = [],
         sentBody = JObj [(''success'', JBool False),
           (''message'', JStr (''Servi'' @ [CHR 0xE7] @ ''o temporariamente indispon'' @ [CHR 0xED] @ ''vel'')),
           (''service'', JStr serviceName),
           (''error'', JStr ''Circuit breaker aberto'')]\<rparr>
      else if code error = Some ''ECONNREFUSED''
              \<or> str_includes (message error) (''n'' @ [CHR 0xE3] @ ''o encontrado'') then
        \<lparr>statusCode = 503, resHeaders = [],
         sentBody = JObj [(''success'', JBool False),
           (''message'', JStr (''Servi'' @ [CHR 0xE7] @ ''o indispon'' @ [CHR 0xED] @ ''vel'')),
           (''service'', JStr serviceName)]\<rparr>
      else case response error of
        Some r \<Rightarrow> \<lparr>statusCode = status r, resHeaders = [], sentBody = data r\<rparr>
      | None \<Rightarrow>
        \<lparr>statusCode = 500, resHeaders = [],
         sentBody = JObj [(''success'', JBool False),
           (''message'', JStr ''Erro interno do gateway''),
           (''service'', JStr serviceName)]\<rparr>)"

text \<open>The request that is forwarded: the method and body of the inbound request, its
  headers without \<open>host\<close> and \<open>content-length\<close>, the rewritten path on the address of
  the discovered service, a timeout of 10 s.\<close>

definition forwardedRequest :: "discovered \<Rightarrow> inbound \<Rightarrow> request" where
  "forwardedRequest srv req =
     (let targetPath = rewritePath (originalUrl req);
          u = urlOf srv @ targetPath
      in \<lparr>verb = httpMethod req, target = u, payload = body req,
          headers = filter (\<lambda>(k, v). k \<noteq> ''host'' \<and> k \<noteq> ''content-length'') (reqHeaders req),
          params = [], timeout = Some 10000\<rparr>)"

definition proxyToService ::
    "string \<Rightarrow> inbound \<Rightarrow> registry_state \<Rightarrow> network \<Rightarrow> circuitBreakers \<times> world
     \<Rightarrow> reply \<times> circuitBreakers \<times> world" where
  "proxyToService serviceName req d net gw =
     (case discover serviceName d of
        Inl error \<Rightarrow> (proxyFailure serviceName error, gw)
      | Inr srv \<Rightarrow>
          case executeWithCircuitBreaker serviceName
                 (\<lambda>cbs. axios net (forwardedRequest srv req)) gw of
            (Inr result, gw') \<Rightarrow>
              (\<lparr>statusCode = status result,
                resHeaders = [(''X-Proxied-By'', ''api-gateway''),
                              (''X-Service-Source'', serviceName)],
                sentBody = data result\<rparr>, gw')
          | (Inl error, gw') \<Rightarrow> (proxyFailure serviceName error, gw'))"

subsection \<open>Bearer validation\<close>

text \<open>The middleware either answers itself or calls \<open>next()\<close> with \<open>req.user\<close> set.\<close>

datatype auth_outcome = Rejected reply | Next json

definition tokenRequired :: reply where
  "tokenRequired =
     \<lparr>statusCode = 401, resHeaders = [],
      sentBody = JObj [(''success'', JBool False),
        (''message'', JStr (''Token obrigat'' @ [CHR 0xF3] @ ''rio''))]\<rparr>"

definition tokenInvalid :: reply where
  "tokenInvalid =
     \<lparr>statusCode = 401, resHeaders = [],
      sentBody = JObj [(''success'', JBool False),
        (''message'', JStr (''Token inv'' @ [CHR 0xE1] @ ''lido''))]\<rparr>"

definition authMiddleware :: "inbound \<Rightarrow> registry_state \<Rightarrow> network \<Rightarrow> world \<Rightarrow> auth_outcome \<times> world" where
  "authMiddleware req d net w =
     (case map_of (reqHeaders req) ''authorization'' of
        None \<Rightarrow> (Rejected tokenRequired, w)
      | Some authHeader \<Rightarrow>
          if \<not> startsWith authHeader ''Bearer '' then (Rejected tokenRequired, w)
          else
            case discover ''user-service'' d of
              Inl error \<Rightarrow> (Rejected tokenInvalid, w)
            | Inr userSrv \<Rightarrow>
                case axios_post net (urlOf userSrv @ ''/auth/validate'')
                       (JObj [(''token'', JStr (replace authHeader ''Bearer '' []))])
                       (Some 5000) w of
                  (Inl error, w') \<Rightarrow> (Rejected tokenInvalid, w')
                | (Inr resp, w') \<Rightarrow>
                    case getProp (data resp) ''success'' of
                      Inl error \<Rightarrow> (Rejected tokenInvalid, w')
                    | Inr success \<Rightarrow>
                        if truthy success then
                          case getProp (data resp) ''data'' of
                            Inl error \<Rightarrow> (Rejected tokenInvalid, w')
                          | Inr dd \<Rightarrow>
                              case getProp dd ''user'' of
                                Inl error \<Rightarrow> (Rejected tokenInvalid, w')
                              | Inr u \<Rightarrow> (Next u, w')
                        else
                          (Rejected \<lparr>statusCode = 401, resHeaders = [],
                                     sentBody = data resp\<rparr>, w'))"

text \<open>A route registered as \<open>app.get(path, authMiddleware, handler)\<close>: the handler runs
  only when the middleware calls \<open>next()\<close>.\<close>

definition protectedRoute ::
    "(json \<Rightarrow> world \<Rightarrow> reply \<times> world) \<Rightarrow> inbound \<Rightarrow> registry_state \<Rightarrow> network \<Rightarrow> world
     \<Rightarrow> reply \<times> world" where
  "protectedRoute handler req d net w =
     (case authMiddleware req d net w of
        (Rejected r, w') \<Rightarrow> (r, w')
      | (Next u, w') \<Rightarrow> handler u w')"

subsection \<open>Dashboard aggregation\<close>

record dashboard_services =
  userService :: json
  itemService :: json
  listService :: json

record dashboard_summary =
  totalUsers :: json
  totalItems :: json
  activeItems :: json
  totalLists :: json
  activeLists :: json
  userLists :: json
  categories :: json

text \<open>\<open>timestamp\<close> holds the clock reading that the source renders as ISO text.\<close>

record dashboard =
  timestamp :: int
  user :: json
  services :: dashboard_services
  summary :: dashboard_summary

definition healthySection :: "(string \<times> json) list \<Rightarrow> json" where
  "healthySection counts = JObj ((''status'', JStr ''healthy'') # counts)"

definition unhealthySection :: "js_error \<Rightarrow> json" where
  "unhealthySection error = JObj [(''status'', JStr ''unhealthy''), (''error'', JStr (message error))]"

text \<open>\<open>resp.data.database?.key || 0\<close>\<close>

definition databaseCount :: "response \<Rightarrow> string \<Rightarrow> js_error + json" where
  "databaseCount resp key =
     (case getProp (data resp) ''database'' of
        Inl error \<Rightarrow> Inl error
      | Inr database \<Rightarrow> Inr (orElse (optProp database key) (JNum ''0'')))"

text \<open>\<open>resp.data.data?.length || 0\<close>\<close>

definition dataLength :: "response \<Rightarrow> js_error + json" where
  "dataLength resp =
     (case getProp (data resp) ''data'' of
        Inl error \<Rightarrow> Inl error
      | Inr dd \<Rightarrow> Inr (orElse (optProp dd ''length'') (JNum ''0'')))"

text \<open>The first \<open>try\<close> block (user service) and its \<open>catch\<close>.\<close>

definition userServiceStats :: "registry_state \<Rightarrow> network \<Rightarrow> dashboard \<times> world \<Rightarrow> dashboard \<times> world" where
  "userServiceStats d net dw =
     (case dw of (dash, w) \<Rightarrow>
      let failed = (\<lambda>error. dash\<lparr>services := (services dash)\<lparr>userService := unhealthySection error\<rparr>\<rparr>)
      in case discover ''user-service'' d of
           Inl error \<Rightarrow> (failed error, w)
         | Inr userSrv \<Rightarrow>
             case axios_get net (urlOf userSrv @ ''/health'') [] [] (Some 5000) w of
               (Inl error, w') \<Rightarrow> (failed error, w')
             | (Inr userHealth, w') \<Rightarrow>
                 case databaseCount userHealth ''userCount'' of
                   Inl error \<Rightarrow> (failed error, w')
                 | Inr userCount \<Rightarrow>
                     (dash\<lparr>services := (services dash)
                              \<lparr>userService := healthySection [(''userCount'', userCount)]\<rparr>,
                           summary := (summary dash)\<lparr>totalUsers := userCount\<rparr>\<rparr>, w'))"

text \<open>The second block (item service): the counts are stored before \<open>/categories\<close> is
  asked, in the same \<open>try\<close>.\<close>

definition itemServiceStats :: "registry_state \<Rightarrow> network \<Rightarrow> dashboard \<times> world \<Rightarrow> dashboard \<times> world" where
  "itemServiceStats d net dw =
     (case dw of (dash, w) \<Rightarrow>
      let failed = (\<lambda>dsh error. dsh\<lparr>services := (services dsh)\<lparr>itemService := unhealthySection error\<rparr>\<rparr>)
      in case discover ''item-service'' d of
           Inl error \<Rightarrow> (failed dash error, w)
         | Inr itemSrv \<Rightarrow>
             case axios_get net (urlOf itemSrv @ ''/health'') [] [] (Some 5000) w of
               (Inl error, w1) \<Rightarrow> (failed dash error, w1)
             | (Inr itemHealth, w1) \<Rightarrow>
                 case databaseCount itemHealth ''itemCount'' of
                   Inl error \<Rightarrow> (failed dash error, w1)
                 | Inr itemCount \<Rightarrow>
                 case databaseCount itemHealth ''activeItems'' of
                   Inl error \<Rightarrow> (failed dash error, w1)
                 | Inr active \<Rightarrow>
                     let dash1 = dash\<lparr>services := (services dash)
                                   \<lparr>itemService := healthySection
                                      [(''itemCount'', itemCount), (''activeItems'', active)]\<rparr>,
                                 summary := (summary dash)
                                   \<lparr>totalItems := itemCount, activeItems := active\<rparr>\<rparr>
                     in case axios_get net (urlOf itemSrv @ ''/categories'') [] [] (Some 5000) w1 of
                          (Inl error, w2) \<Rightarrow> (failed dash1 error, w2)
                        | (Inr categoriesResponse, w2) \<Rightarrow>
                            case dataLength categoriesResponse of
                              Inl error \<Rightarrow> (failed dash1 error, w2)
                            | Inr n \<Rightarrow>
                                (dash1\<lparr>summary := (summary dash1)\<lparr>categories := n\<rparr>\<rparr>, w2))"

text \<open>The third block (list service), with the inner \<open>try\<close> around the user's lists.\<close>

definition listServiceStats ::
    "json \<Rightarrow> registry_state \<Rightarrow> network \<Rightarrow> dashboard \<times> world \<Rightarrow> dashboard \<times> world" where
  "listServiceStats usr d net dw =
     (case dw of (dash, w) \<Rightarrow>
      let failed = (\<lambda>error. dash\<lparr>services := (services dash)\<lparr>listService := unhealthySection error\<rparr>\<rparr>)
      in case discover ''list-service'' d of
           Inl error \<Rightarrow> (failed error, w)
         | Inr listSrv \<Rightarrow>
             case axios_get net (urlOf listSrv @ ''/health'') [] [] (Some 5000) w of
               (Inl error, w1) \<Rightarrow> (failed error, w1)
             | (Inr listHealth, w1) \<Rightarrow>
                 case databaseCount listHealth ''listCount'' of
                   Inl error \<Rightarrow> (failed error, w1)
                 | Inr listCount \<Rightarrow>
                 case databaseCount listHealth ''activeLists'' of
                   Inl error \<Rightarrow> (failed error, w1)
                 | Inr active \<Rightarrow>
                     let dash1 = dash\<lparr>services := (services dash)
                                   \<lparr>listService := healthySection
                                      [(''listCount'', listCount), (''activeLists'', active)]\<rparr>,
                                 summary := (summary dash)
                                   \<lparr>totalLists := listCount, activeLists := active\<rparr>\<rparr>;
                         noLists = dash1\<lparr>summary := (summary dash1)\<lparr>userLists := JNum ''0''\<rparr>\<rparr>
                     in if truthy usr then
                          case getProp usr ''token'' of
                            Inl error \<Rightarrow> (noLists, w1)
                          | Inr token \<Rightarrow>
                          case toStr (orElse token (JStr [])) of
                            Inl error \<Rightarrow> (noLists, w1)
                          | Inr tokenText \<Rightarrow>
                              case axios_get net (urlOf listSrv @ ''/lists'')
                                     [(''Authorization'', ''Bearer '' @ tokenText)]
                                     [] (Some 5000) w1 of
                                (Inl error, w2) \<Rightarrow> (noLists, w2)
                              | (Inr userListsResponse, w2) \<Rightarrow>
                                  case dataLength userListsResponse of
                                    Inl error \<Rightarrow> (noLists, w2)
                                  | Inr n \<Rightarrow>
                                      (dash1\<lparr>summary := (summary dash1)\<lparr>userLists := n\<rparr>\<rparr>, w2)
                        else (dash1, w1))"

text \<open>The \<open>user\<close> entry of the dashboard, built before the first block and outside any
  \<open>try\<close>: the template literal of \<open>name\<close> converts the two name parts to strings and
  throws when one of them does not convert.\<close>

definition userView :: "json \<Rightarrow> js_error + json" where
  "userView usr =
     (if truthy usr then
        case getProp usr ''id'' of Inl error \<Rightarrow> Inl error | Inr uid \<Rightarrow>
        case getProp usr ''firstName'' of Inl error \<Rightarrow> Inl error | Inr firstName \<Rightarrow>
        case toStr firstName of Inl error \<Rightarrow> Inl error | Inr firstText \<Rightarrow>
        case getProp usr ''lastName'' of Inl error \<Rightarrow> Inl error | Inr lastName \<Rightarrow>
        case toStr lastName of Inl error \<Rightarrow> Inl error | Inr lastText \<Rightarrow>
        case getProp usr ''email'' of Inl error \<Rightarrow> Inl error | Inr email \<Rightarrow>
          Inr (JObj [(''id'', uid),
                     (''name'', JStr (firstText @ '' '' @ lastText)),
                     (''email'', email)])
      else Inr JNull)"

text \<open>The object that \<open>aggregateDashboardData\<close> starts from: no section yet, every
  number of the summary zero.\<close>

definition initialDashboard :: "int \<Rightarrow> json \<Rightarrow> dashboard" where
  "initialDashboard now view =
     \<lparr>timestamp = now, user = view,
      services = \<lparr>userService = JUndefined, itemService = JUndefined,
                  listService = JUndefined\<rparr>,
      summary = \<lparr>totalUsers = JNum ''0'', totalItems = JNum ''0'', activeItems = JNum ''0'',
                 totalLists = JNum ''0'', activeLists = JNum ''0'', userLists = JNum ''0'',
                 categories = JNum ''0''\<rparr>\<rparr>"

definition aggregateDashboardData ::
    "json \<Rightarrow> registry_state \<Rightarrow> network \<Rightarrow> world \<Rightarrow> (js_error + dashboard) \<times> world" where
  "aggregateDashboardData usr d net w =
     (case userView usr of
        Inl error \<Rightarrow> (Inl error, w)
      | Inr view \<Rightarrow>
          case listServiceStats usr d net
                    (itemServiceStats d net
                       (userServiceStats d net (initialDashboard (clock w) view, w))) of
               (dash, w') \<Rightarrow> (Inr dash, w'))"

definition dashboardJson :: "dashboard \<Rightarrow> json" where
  "dashboardJson dash =
     JObj [(''timestamp'', JNum (show_int (timestamp dash))),
           (''user'', user dash),
           (''services'', JObj [(''userService'', userService (services dash)),
                                (''itemService'', itemService (services dash)),
                                (''listService'', listService (services dash))]),
           (''summary'', JObj [(''totalUsers'', totalUsers (summary dash)),
                               (''totalItems'', totalItems (summary dash)),
                               (''activeItems'', activeItems (summary dash)),
                               (''totalLists'', totalLists (summary dash)),
                               (''activeLists'', activeLists (summary dash)),
                               (''userLists'', userLists (summary dash)),
                               (''categories'', categories (summary dash))])]"

text \<open>The handler of \<open>GET /api/dashboard\<close>, after the middleware.\<close>

definition dashboardHandler :: "registry_state \<Rightarrow> network \<Rightarrow> json \<Rightarrow> world \<Rightarrow> reply \<times> world" where
  "dashboardHandler d net usr w =
     (case aggregateDashboardData usr d net w of
        (Inr dash, w') \<Rightarrow>
          (\<lparr>statusCode = 200, resHeaders = [],
            sentBody = JObj [(''success'', JBool True), (''data'', dashboardJson dash)]\<rparr>, w')
      | (Inl error, w') \<Rightarrow>
          (\<lparr>statusCode = 500, resHeaders = [],
            sentBody = JObj [(''success'', JBool False),
                             (''message'', JStr ''Erro ao carregar dashboard'')]\<rparr>, w'))"

definition dashboardRoute :: "inbound \<Rightarrow> registry_state \<Rightarrow> network \<Rightarrow> world \<Rightarrow> reply \<times> world" where
  "dashboardRoute req d net w = protectedRoute (dashboardHandler d net) req d net w"

subsection \<open>Global search\<close>

record searchResults =
  items :: json
  lists :: json

definition performGlobalSearch ::
    "string \<Rightarrow> string \<Rightarrow> registry_state \<Rightarrow> network \<Rightarrow> world \<Rightarrow> searchResults \<times> world" where
  "performGlobalSearch query searchType d net w =
     (let results = \<lparr>items = JArr [], lists = JArr []\<rparr>;
          (results1, w1) =
            (if searchType = ''all'' \<or> searchType = ''items'' then
               case discover ''item-service'' d of
                 Inl error \<Rightarrow> (results, w)
               | Inr itemSrv \<Rightarrow>
                   case axios_get net (urlOf itemSrv @ ''/search'') [] [(''q'', JStr query)]
                          (Some 5000) w of
                     (Inl error, w') \<Rightarrow> (results, w')
                   | (Inr itemResults, w') \<Rightarrow>
                       case getProp (data itemResults) ''data'' of
                         Inl error \<Rightarrow> (results, w')
                       | Inr dd \<Rightarrow>
                           (results\<lparr>items := orElse (optProp dd ''results'') (JArr [])\<rparr>, w')
             else (results, w));
          results2 = (if searchType = ''lists'' then results1\<lparr>lists := JArr []\<rparr> else results1)
      in (results2, w1))"

section \<open>Names of the specification and example scenarios\<close>

definition ServiceNotFound :: "string \<Rightarrow> js_error" where
  "ServiceNotFound serviceName = Error (notFoundMessage serviceName)"

definition ServiceUnavailable :: "string \<Rightarrow> js_error" where
  "ServiceUnavailable serviceName = Error (unavailableMessage serviceName)"

text \<open>Two states that no operation of the registry can tell apart, a state with its file
  replaced by the text of the empty table, and a process just started on an empty
  table.\<close>

definition alike :: "registry_state \<Rightarrow> registry_state \<Rightarrow> bool" where
  "alike d d' =
     (readRegistry d = readRegistry d' \<and> writable d = writable d'
      \<and> protoHealthy d = protoHealthy d' \<and> memberHealthy d = memberHealthy d')"

definition emptied :: "registry_state \<Rightarrow> registry_state" where
  "emptied d = d\<lparr>registryFile := Json []\<rparr>"

definition emptyStore :: registry_state where
  "emptyStore =
     \<lparr>registryFile = Json [], writable = True, protoHealthy = False, memberHealthy = []\<rparr>"

definition exampleService :: "string \<Rightarrow> bool \<Rightarrow> nat \<Rightarrow> service" where
  "exampleService u h p =
     \<lparr>url = u, version = ''1.0.0'', endpoints = [''/health''],
      registeredAt = 1000, lastHealthCheck = 1000, healthy = h, pid = p\<rparr>"

definition exampleDisk :: registry_state where
  "exampleDisk =
     \<lparr>registryFile = Json
        [(''user-service'', exampleService ''http://localhost:3001'' False 101),
         (''item-service'', exampleService ''http://localhost:3002'' True 102),
         (''list-service'', exampleService ''http://localhost:3003'' True 101)],
      writable = True, protoHealthy = False, memberHealthy = []\<rparr>"

definition CircuitOpen :: "string \<Rightarrow> js_error" where
  "CircuitOpen serviceName = Error (circuitOpenMessage serviceName)"

text \<open>The breaker tables the gateway can hold: it starts with none and changes the table
  only in \<open>executeWithCircuitBreaker\<close>.\<close>

inductive reachable :: "circuitBreakers \<Rightarrow> bool" where
  start: "reachable Map.empty"
| call: "reachable cbs \<Longrightarrow>
         executeWithCircuitBreaker serviceName
           (operation :: circuitBreakers \<Rightarrow> world \<Rightarrow> (js_error + response) \<times> world)
           (cbs, w) = (r, cbs', w')
         \<Longrightarrow> reachable cbs'"

text \<open>A downstream that refuses every connection, one that answers every request, and
  calls chained through the breaker from the start of the process.\<close>

definition exampleRequest :: request where
  "exampleRequest =
     \<lparr>verb = ''GET'', target = ''http://localhost:3002/items'', payload = JUndefined,
      headers = [], params = [], timeout = Some 10000\<rparr>"

definition refusing :: network where
  "refusing req t =
     (Inl \<lparr>message = ''connect ECONNREFUSED 127.0.0.1:3002'', code = Some ''ECONNREFUSED'',
           response = None\<rparr>, 1)"

definition answering :: network where
  "answering req t = (Inr \<lparr>status = 200, data = JObj [(''success'', JBool True)]\<rparr>, 5)"

definition refusedCall :: "circuitBreakers \<Rightarrow> world \<Rightarrow> (js_error + response) \<times> world" where
  "refusedCall cbs = axios refusing exampleRequest"

definition answeredCall :: "circuitBreakers \<Rightarrow> world \<Rightarrow> (js_error + response) \<times> world" where
  "answeredCall cbs = axios answering exampleRequest"

definition attempt ::
    "string \<Rightarrow> (circuitBreakers \<Rightarrow> world \<Rightarrow> (js_error + response) \<times> world)
     \<Rightarrow> circuitBreakers \<times> world \<Rightarrow> circuitBreakers \<times> world" where
  "attempt serviceName operation gw = snd (executeWithCircuitBreaker serviceName operation gw)"

definition atTime :: "int \<Rightarrow> circuitBreakers \<times> world \<Rightarrow> circuitBreakers \<times> world" where
  "atTime t gw = (fst gw, (snd gw)\<lparr>clock := t\<rparr>)"

definition startUp :: "circuitBreakers \<times> world" where
  "startUp = (Map.empty, \<lparr>clock = 0, sent = []\<rparr>)"

text \<open>What holds of every stored breaker between calls.\<close>

definition breaker_ok :: "circuitBreaker \<Rightarrow> bool" where
  "breaker_ok cb =
     (case state cb of
        Closed \<Rightarrow> failureCount cb < 3
      | Open \<Rightarrow> 3 \<le> failureCount cb
      | HalfOpen \<Rightarrow> False)"

text \<open>An inbound request without credentials, one with a bearer token, a registry in
  which every service is healthy, and the request that the global search sends.\<close>

definition exampleInbound :: inbound where
  "exampleInbound =
     \<lparr>httpMethod = ''GET'', originalUrl = ''/api/users/42'', body = JUndefined,
      reqHeaders = [(''host'', ''localhost:3000''), (''accept'', ''application/json'')]\<rparr>"

definition healthyDisk :: registry_state where
  "healthyDisk =
     \<lparr>registryFile = Json
        [(''user-service'', exampleService ''http://localhost:3001'' True 101),
         (''item-service'', exampleService ''http://localhost:3002'' True 102),
         (''list-service'', exampleService ''http://localhost:3003'' True 103)],
      writable = True, protoHealthy = False, memberHealthy = []\<rparr>"

definition bearerInbound :: inbound where
  "bearerInbound =
     \<lparr>httpMethod = ''GET'', originalUrl = ''/api/dashboard'', body = JUndefined,
      reqHeaders = [(''host'', ''localhost:3000''), (''authorization'', ''Bearer abc'')]\<rparr>"

definition searchRequest :: "string \<Rightarrow> string \<Rightarrow> request" where
  "searchRequest base query =
     \<lparr>verb = ''GET'', target = base @ ''/search'', payload = JUndefined, headers = [],
      params = [(''q'', JStr query)], timeout = Some 5000\<rparr>"

text \<open>The health probe that opens each block of the dashboard aggregation: the service is
  discovered and its \<open>/health\<close> asked with a timeout of 5 s.\<close>

definition healthProbe :: "string \<Rightarrow> registry_state \<Rightarrow> network \<Rightarrow> world \<Rightarrow> (js_error + response) \<times> world" where
  "healthProbe serviceName d net w =
     (case discover serviceName d of
        Inl error \<Rightarrow> (Inl error, w)
      | Inr srv \<Rightarrow> axios_get net (urlOf srv @ ''/health'') [] [] (Some 5000) w)"

text \<open>An authenticated principal, and a network in which the item service refuses
  connections while the user service validates the token and the user and list services
  answer their probes.\<close>

definition exampleUser :: json where
  "exampleUser =
     JObj [(''id'', JStr ''u1''), (''firstName'', JStr ''Ana''), (''lastName'', JStr ''Silva''),
           (''email'', JStr ''ana@example.com'')]"

definition itemDown :: network where
  "itemDown req t =
     (if target req = ''http://localhost:3001/auth/validate'' then
        (Inr \<lparr>status = 200,
              data = JObj [(''success'', JBool True),
                           (''data'', JObj [(''user'', exampleUser)])]\<rparr>, 2)
      else if target req = ''http://localhost:3001/health'' then
        (Inr \<lparr>status = 200,
              data = JObj [(''status'', JStr ''healthy''),
                           (''database'', JObj [(''userCount'', JNum ''7'')])]\<rparr>, 2)
      else if startsWith (target req) ''http://localhost:3002'' then
        (Inl \<lparr>message = ''connect ECONNREFUSED 127.0.0.1:3002'', code = Some ''ECONNREFUSED'',
              response = None\<rparr>, 1)
      else if target req = ''http://localhost:3003/health'' then
        (Inr \<lparr>status = 200,
              data = JObj [(''status'', JStr ''healthy''),
                           (''database'', JObj [(''listCount'', JNum ''4''),
                                                (''activeLists'', JNum ''3'')])]\<rparr>, 2)
      else
        (Inr \<lparr>status = 200,
              data = JObj [(''success'', JBool True), (''data'', JArr [JNull])]\<rparr>, 2))"

text \<open>A principal whose two name parts convert to strings: the principals for which the
  template literal of \<open>name\<close> does not throw.\<close>

definition printable :: "json \<Rightarrow> bool" where
  "printable v = (case toStr v of Inl error \<Rightarrow> False | Inr s \<Rightarrow> True)"

definition namePrints :: "json \<Rightarrow> bool" where
  "namePrints usr =
     (\<not> truthy usr
      \<or> printable (optProp usr ''firstName'') \<and> printable (optProp usr ''lastName''))"

text \<open>A network in which the user and list services refuse connections and the item
  service answers \<open>/health\<close> and then times out on \<open>/categories\<close>; a principal whose
  first name is an object with a member \<open>toString\<close>, and a network whose user service
  validates the token as that principal.\<close>

definition categoriesDown :: network where
  "categoriesDown req t =
     (if target req = ''http://localhost:3002/health'' then
        (Inr \<lparr>status = 200,
              data = JObj [(''status'', JStr ''healthy''),
                           (''database'', JObj [(''itemCount'', JNum ''12''),
                                                (''activeItems'', JNum ''9'')])]\<rparr>, 2)
      else if target req = ''http://localhost:3002/categories'' then
        (Inl \<lparr>message = ''timeout of 5000ms exceeded'', code = Some ''ECONNABORTED'',
              response = None\<rparr>, 5000)
      else
        (Inl \<lparr>message = ''connect ECONNREFUSED 127.0.0.1'', code = Some ''ECONNREFUSED'',
              response = None\<rparr>, 1))"

definition oddUser :: json where
  "oddUser =
     JObj [(''id'', JStr ''u1''), (''firstName'', JObj [(''toString'', JNum ''1'')]),
           (''lastName'', JStr ''Silva''), (''email'', JStr ''ana@example.com'')]"

definition oddValidation :: network where
  "oddValidation req t =
     (Inr \<lparr>status = 200,
           data = JObj [(''success'', JBool True),
                        (''data'', JObj [(''user'', oddUser)])]\<rparr>, 2)"

section \<open>Registry: the store\<close>

lemma update_fresh: "k \<notin> fst ` set al \<Longrightarrow> AList.update k v al = al @ [(k, v)]"
  by (induction al) auto

lemma fold_update_distinct:
  "distinct (map fst (acc @ al)) \<Longrightarrow>
   fold (\<lambda>(name, v) obj. AList.update name v obj) al acc = acc @ al"
proof (induction al arbitrary: acc)
  case Nil
  then show ?case by simp
next
  case (Cons a al)
  obtain k v where a: "a = (k, v)" by (cases a)
  from Cons.prems have fresh: "k \<notin> fst ` set acc" by (auto simp: a)
  from Cons.prems have "distinct (map fst ((acc @ [(k, v)]) @ al))" by (auto simp: a)
  from Cons.IH [OF this] show ?case by (simp add: a update_fresh [OF fresh])
qed

lemma JSON_parse_distinct_id: "distinct (map fst al) \<Longrightarrow> JSON_parse al = al"
  using fold_update_distinct [of "[]" al] by (simp add: JSON_parse_def)

lemma distinct_fold_update:
  "distinct (map fst acc) \<Longrightarrow>
   distinct (map fst (fold (\<lambda>(name, v) obj. AList.update name v obj) al acc))"
  by (induction al arbitrary: acc) (auto simp: distinct_update)

lemma distinct_JSON_parse: "distinct (map fst (JSON_parse members))"
  by (simp add: JSON_parse_def distinct_fold_update)

lemma distinct_readRegistry: "distinct (map fst (readRegistry d))"
  by (simp add: readRegistry_def distinct_JSON_parse split: registry_file.split)

lemma readRegistry_writeRegistry:
  "writable d \<Longrightarrow> distinct (map fst srv) \<Longrightarrow> readRegistry (writeRegistry srv d) = srv"
  by (simp add: readRegistry_def writeRegistry_def JSON_stringify_def JSON_parse_distinct_id)

lemma writeRegistry_readonly: "\<not> writable d \<Longrightarrow> writeRegistry srv d = d"
  by (simp add: writeRegistry_def)

lemma cleanup_loop_changed:
  "snd (cleanup_loop p es (srv, c)) = (c \<or> (\<exists>(n, s) \<in> set es. pid s = p))"
proof (induction es arbitrary: srv c)
  case Nil
  show ?case by simp
next
  case (Cons e es)
  obtain name s where e: "e = (name, s)" by (cases e)
  show ?case by (simp add: e Cons.IH)
qed

lemma cleanup_loop_lookup:
  "map_of (fst (cleanup_loop p es (srv, c))) n =
     (if \<exists>s. (n, s) \<in> set es \<and> pid s = p then None else map_of srv n)"
  by (induction es arbitrary: srv c) (auto simp: delete_conv')

lemma cleanup_loop_distinct:
  "distinct (map fst srv) \<Longrightarrow> distinct (map fst (fst (cleanup_loop p es (srv, c))))"
  by (induction es arbitrary: srv c) (auto simp: distinct_delete)

lemma cleanup_lookup:
  assumes "writable d"
  shows "map_of (readRegistry (cleanup p d)) n =
           (case map_of (readRegistry d) n of
              None \<Rightarrow> None
            | Some s \<Rightarrow> if pid s = p then None else Some s)"
proof -
  let ?srv = "readRegistry d"
  obtain srv' changed where loop: "cleanup_loop p ?srv (?srv, False) = (srv', changed)"
    by (cases "cleanup_loop p ?srv (?srv, False)")
  have dist: "distinct (map fst ?srv)" by (rule distinct_readRegistry)
  have mem: "\<And>s. ((n, s) \<in> set ?srv) = (map_of ?srv n = Some s)"
    using dist by (simp add: map_of_eq_Some_iff)
  have look: "map_of srv' n = (if \<exists>s. (n, s) \<in> set ?srv \<and> pid s = p then None else map_of ?srv n)"
    using cleanup_loop_lookup [of p ?srv ?srv False n] by (simp add: loop)
  have ch: "changed = (\<exists>(n, s) \<in> set ?srv. pid s = p)"
    using cleanup_loop_changed [of p ?srv ?srv False] by (simp add: loop)
  have dist': "distinct (map fst srv')"
    using cleanup_loop_distinct [OF dist, of p ?srv False] by (simp add: loop)
  show ?thesis
  proof (cases changed)
    case True
    then have "readRegistry (cleanup p d) = srv'"
      by (simp add: cleanup_def loop readRegistry_writeRegistry [OF assms dist'])
    then show ?thesis by (auto simp: look mem split: option.split)
  next
    case False
    then have same: "cleanup p d = d" by (simp add: cleanup_def loop)
    from False ch have "\<And>s. (n, s) \<in> set ?srv \<Longrightarrow> pid s \<noteq> p" by auto
    then show ?thesis by (auto simp: same mem split: option.split)
  qed
qed

lemma messages_differ: "notFoundMessage n \<noteq> unavailableMessage n"
  by (simp add: notFoundMessage_def unavailableMessage_def)

lemma errors_differ: "ServiceNotFound n \<noteq> ServiceUnavailable n"
  by (simp add: ServiceNotFound_def ServiceUnavailable_def Error_def messages_differ)

lemma getMember_cases:
  "getMember srv n = Own s \<longleftrightarrow> map_of srv n = Some s"
  "getMember srv n = Inherited \<longleftrightarrow> map_of srv n = None \<and> n \<in> set objectPrototype"
  "getMember srv n = Absent \<longleftrightarrow> map_of srv n = None \<and> n \<notin> set objectPrototype"
  by (auto simp: getMember_def split: option.splits)

lemma discover_absent:
  "map_of (readRegistry d) n = None \<Longrightarrow> n \<notin> set objectPrototype \<Longrightarrow>
   discover n d = Inl (ServiceNotFound n)"
  by (simp add: discover_def getMember_def ServiceNotFound_def)

lemma discover_unhealthy:
  "map_of (readRegistry d) n = Some s \<Longrightarrow> \<not> healthy s \<Longrightarrow> discover n d = Inl (ServiceUnavailable n)"
  by (simp add: discover_def getMember_def ServiceUnavailable_def)

lemma discover_healthy:
  "map_of (readRegistry d) n = Some s \<Longrightarrow> healthy s \<Longrightarrow> discover n d = Inr (Registered s)"
  by (simp add: discover_def getMember_def)

lemma discover_inherited:
  "map_of (readRegistry d) n = None \<Longrightarrow> n \<in> set objectPrototype \<Longrightarrow>
   discover n d = (if inheritedHealthy d n then Inr (InheritedMember n)
                   else Inl (ServiceUnavailable n))"
  by (simp add: discover_def getMember_def ServiceUnavailable_def)

lemma unregister_lookup:
  "writable d \<Longrightarrow> map_of (readRegistry (snd (unregister n d))) n = None"
  by (auto simp: unregister_def Let_def getMember_def readRegistry_writeRegistry distinct_delete
        distinct_readRegistry delete_conv' split: option.splits)

lemma updateHealth_lookup:
  "writable d \<Longrightarrow> map_of (readRegistry d) n = Some s \<Longrightarrow>
   map_of (readRegistry (updateHealth n h now d)) n = Some (s\<lparr>healthy := h, lastHealthCheck := now\<rparr>)"
  by (simp add: updateHealth_def Let_def getMember_def readRegistry_writeRegistry distinct_update
        distinct_readRegistry update_conv')

text \<open>
  What \<open>discover\<close> does, for every name and state: not found exactly for a name that is
  neither in the table nor inherited; unavailable exactly for a record with
  \<open>healthy = false\<close> or for an inherited name whose \<open>healthy\<close> tests false; the record
  exactly when it is there with \<open>healthy = true\<close>.
\<close>

lemma discover_characterised:
  "(discover n d = Inl (ServiceNotFound n)
      \<longleftrightarrow> map_of (readRegistry d) n = None \<and> n \<notin> set objectPrototype)
   \<and> (discover n d = Inl (ServiceUnavailable n)
        \<longleftrightarrow> (\<exists>s. map_of (readRegistry d) n = Some s \<and> \<not> healthy s)
            \<or> (map_of (readRegistry d) n = None \<and> n \<in> set objectPrototype
               \<and> \<not> inheritedHealthy d n))
   \<and> (\<forall>s. discover n d = Inr (Registered s)
        \<longleftrightarrow> map_of (readRegistry d) n = Some s \<and> healthy s)"
proof (cases "map_of (readRegistry d) n")
  case None
  show ?thesis
  proof (cases "n \<in> set objectPrototype")
    case True
    with None errors_differ [of n] show ?thesis by (auto simp: discover_inherited)
  next
    case False
    with None errors_differ [of n] show ?thesis by (auto simp: discover_absent)
  qed
next
  case (Some s)
  with errors_differ [of n] show ?thesis
    by (cases "healthy s") (auto simp: discover_healthy discover_unhealthy)
qed

lemma emptyStore_read: "readRegistry emptyStore = []"
  by (simp add: emptyStore_def readRegistry_def JSON_parse_def)

text \<open>
  Claim C5, at an input where the code departs from it. The table is empty and the
  process has just started. The name \<open>toString\<close> is absent from the store, as
  \<open>hasService\<close> answers, yet the lookup of \<open>discover\<close> finds the function that every
  object inherits, whose \<open>healthy\<close> is undefined: \<open>discover\<close> throws the unavailable error
  where the claim says not found, and \<open>unregister\<close> answers \<open>true\<close>. After
  \<open>updateHealth\<close> with \<open>true\<close> under that name, \<open>discover\<close> returns the inherited function,
  which is no stored record.
\<close>

theorem discover_inherited_name:
  "map_of (readRegistry emptyStore) ''toString'' = None
   \<and> hasService ''toString'' emptyStore = Inr False
   \<and> discover ''toString'' emptyStore = Inl (ServiceUnavailable ''toString'')
   \<and> discover ''toString'' emptyStore \<noteq> Inl (ServiceNotFound ''toString'')
   \<and> unregister ''toString'' emptyStore = (True, emptyStore)
   \<and> readRegistry (updateHealth ''toString'' True 1000 emptyStore) = []
   \<and> discover ''toString'' (updateHealth ''toString'' True 1000 emptyStore)
       = Inr (InheritedMember ''toString'')"
proof -
  have r: "map_of (readRegistry emptyStore) ''toString'' = None"
    by (simp add: emptyStore_read)
  have p: "''toString'' \<in> set objectPrototype" by (simp add: objectPrototype_def)
  have s: "hasService ''toString'' emptyStore = Inr False"
    by (simp add: hasService_def emptyStore_read)
  have h: "\<not> inheritedHealthy emptyStore ''toString''"
    by (simp add: inheritedHealthy_def emptyStore_def)
  have d: "discover ''toString'' emptyStore = Inl (ServiceUnavailable ''toString'')"
    using discover_inherited [OF r p] h by simp
  have u: "unregister ''toString'' emptyStore = (True, emptyStore)"
    using r p
    by (simp add: unregister_def getMember_def emptyStore_read)
       (simp add: emptyStore_def writeRegistry_def JSON_stringify_def)
  have e: "updateHealth ''toString'' True 1000 emptyStore
      = emptyStore\<lparr>memberHealthy := [(''toString'', True)]\<rparr>"
    using r p
    by (simp add: updateHealth_def getMember_def emptyStore_read)
       (simp add: emptyStore_def writeRegistry_def JSON_stringify_def)
  have r': "readRegistry (updateHealth ''toString'' True 1000 emptyStore) = []"
    by (simp add: e) (simp add: emptyStore_def readRegistry_def JSON_parse_def)
  have h': "inheritedHealthy (updateHealth ''toString'' True 1000 emptyStore) ''toString''"
    by (simp add: e inheritedHealthy_def)
  have d': "discover ''toString'' (updateHealth ''toString'' True 1000 emptyStore)
       = Inr (InheritedMember ''toString'')"
    using discover_inherited [of "updateHealth ''toString'' True 1000 emptyStore" "''toString''"]
      r' p h'
    by simp
  from r s d u r' d' errors_differ [of "''toString''"] show ?thesis by simp
qed

lemma exampleDisk_read:
  "readRegistry exampleDisk =
     [(''user-service'', exampleService ''http://localhost:3001'' False 101),
      (''item-service'', exampleService ''http://localhost:3002'' True 102),
      (''list-service'', exampleService ''http://localhost:3003'' True 101)]"
  by (simp add: exampleDisk_def readRegistry_def JSON_parse_def)

text \<open>
  Claim C7. For every state of the store and every process identifier, after \<open>cleanup\<close>
  the table holds exactly the records whose \<open>pid\<close> differs from the identifier of the
  cleaning process, each unchanged: every matching record is gone and nothing else is
  touched. (When the file cannot be written the table stays as it was.)
\<close>

theorem cleanup_removes_exactly_owner:
  "map_of (readRegistry (cleanup p d)) n =
     (if writable d
      then (case map_of (readRegistry d) n of
              None \<Rightarrow> None
            | Some s \<Rightarrow> if pid s = p then None else Some s)
      else map_of (readRegistry d) n)"
proof (cases "writable d")
  case True
  then show ?thesis by (simp add: cleanup_lookup)
next
  case False
  then have "cleanup p d = d"
    by (simp add: cleanup_def Let_def writeRegistry_readonly split: prod.split)
  with False show ?thesis by simp
qed

theorem cleanup_removes_exactly_owner_witness:
  "readRegistry (cleanup 101 exampleDisk)
     = [(''item-service'', exampleService ''http://localhost:3002'' True 102)]
   \<and> map_of (readRegistry (cleanup 101 exampleDisk)) ''user-service'' = None
   \<and> map_of (readRegistry (cleanup 101 exampleDisk)) ''list-service'' = None
   \<and> map_of (readRegistry (cleanup 101 exampleDisk)) ''item-service''
        = Some (exampleService ''http://localhost:3002'' True 102)"
proof -
  have w: "writable exampleDisk" by (simp add: exampleDisk_def)
  have p: "pid (exampleService ''http://localhost:3001'' False 101) = 101"
    "pid (exampleService ''http://localhost:3002'' True 102) = 102"
    "pid (exampleService ''http://localhost:3003'' True 101) = 101"
    by (simp_all add: exampleService_def)
  have c: "cleanup 101 exampleDisk
     = exampleDisk\<lparr>registryFile :=
         Json [(''item-service'', exampleService ''http://localhost:3002'' True 102)]\<rparr>"
    by (simp add: cleanup_def exampleDisk_read p writeRegistry_def w JSON_stringify_def)
  have r: "readRegistry (cleanup 101 exampleDisk)
     = [(''item-service'', exampleService ''http://localhost:3002'' True 102)]"
    by (simp add: c readRegistry_def JSON_parse_def)
  show ?thesis
    using cleanup_removes_exactly_owner [of 101 exampleDisk "''user-service''"]
      cleanup_removes_exactly_owner [of 101 exampleDisk "''list-service''"]
      cleanup_removes_exactly_owner [of 101 exampleDisk "''item-service''"]
    by (simp add: r w exampleDisk_read p)
qed

lemma readRegistry_unreadable:
  "registryFile d \<in> {Missing, Unreadable, Malformed} \<Longrightarrow> readRegistry d = []"
  by (auto simp: readRegistry_def)

lemma alike_refl: "alike d d"
  by (simp add: alike_def)

lemma alike_writeRegistry: "alike d d' \<Longrightarrow> alike (writeRegistry srv d) (writeRegistry srv d')"
  by (auto simp: alike_def writeRegistry_def readRegistry_def)

lemma alike_discover:
  assumes "alike d d'"
  shows "discover n d = discover n d'"
proof -
  from assms have r: "readRegistry d = readRegistry d'"
    and p: "protoHealthy d = protoHealthy d'"
    and m: "memberHealthy d = memberHealthy d'" by (simp_all add: alike_def)
  have "inheritedHealthy d n = inheritedHealthy d' n"
    by (simp only: inheritedHealthy_def p m)
  then show ?thesis by (simp add: discover_def getMember_def r)
qed

lemma alike_getStats: "alike d d' \<Longrightarrow> getStats d = getStats d'"
  by (simp add: alike_def getStats_def)

lemma alike_unregister:
  assumes "alike d d'"
  shows "fst (unregister n d) = fst (unregister n d')"
    and "alike (snd (unregister n d)) (snd (unregister n d'))"
proof -
  from assms have r: "readRegistry d = readRegistry d'" by (simp add: alike_def)
  show "fst (unregister n d) = fst (unregister n d')"
    by (cases "getMember (readRegistry d') n") (simp_all add: unregister_def Let_def r)
  show "alike (snd (unregister n d)) (snd (unregister n d'))"
    by (cases "getMember (readRegistry d') n")
       (simp_all add: unregister_def Let_def r assms alike_writeRegistry [OF assms])
qed

lemma alike_updateHealth:
  assumes "alike d d'"
  shows "alike (updateHealth n h now d) (updateHealth n h now d')"
proof -
  from assms have r: "readRegistry d = readRegistry d'"
    and m: "memberHealthy d = memberHealthy d'" by (simp_all add: alike_def)
  have p: "alike (d\<lparr>protoHealthy := h\<rparr>) (d'\<lparr>protoHealthy := h\<rparr>)"
    using assms by (simp add: alike_def readRegistry_def)
  have q: "alike (d\<lparr>memberHealthy := AList.update n h (memberHealthy d')\<rparr>)
                 (d'\<lparr>memberHealthy := AList.update n h (memberHealthy d')\<rparr>)"
    using assms by (simp add: alike_def readRegistry_def)
  show ?thesis
    by (cases "getMember (readRegistry d') n")
       (simp_all add: updateHealth_def Let_def r m assms alike_writeRegistry [OF assms]
          alike_writeRegistry [OF p] alike_writeRegistry [OF q])
qed

lemma alike_register:
  assumes "alike d d'"
  shows "alike (register n info now p d) (register n info now p d')"
proof -
  from assms have r: "readRegistry d = readRegistry d'" by (simp add: alike_def)
  show ?thesis
    by (simp add: register_def Let_def r alike_writeRegistry [OF assms])
qed

lemma alike_emptied:
  "registryFile d \<in> {Missing, Unreadable, Malformed} \<Longrightarrow> alike d (emptied d)"
  by (auto simp: alike_def emptied_def readRegistry_def JSON_parse_def)

text \<open>
  Claim C8. When the registry file is missing, cannot be read or does not parse, every
  operation of the registry sees the empty table and completes, exactly as it does on a
  file that holds the empty table: \<open>discover\<close> throws the same error, the statistics are
  zero, \<open>unregister\<close> gives the same answer, and \<open>unregister\<close>, \<open>updateHealth\<close>,
  \<open>register\<close> and \<open>cleanup\<close> leave states that no operation can tell from the ones they
  leave on the empty table; the start-up check \<open>ensureRegistryFile\<close> leaves an empty table.
  For a name that no object inherits this means: \<open>discover\<close> reports it as not found,
  \<open>unregister\<close> and \<open>updateHealth\<close> find nothing to do, and \<open>register\<close> writes a table
  holding the new record alone.
\<close>

theorem unreadable_store_is_empty:
  assumes "registryFile d \<in> {Missing, Unreadable, Malformed}"
  shows "readRegistry d = []
    \<and> discover n d = discover n (emptied d)
    \<and> getStats d = (0, 0, 0)
    \<and> fst (unregister n d) = fst (unregister n (emptied d))
    \<and> alike (snd (unregister n d)) (snd (unregister n (emptied d)))
    \<and> alike (updateHealth n h now d) (updateHealth n h now (emptied d))
    \<and> alike (register n info now p d) (register n info now p (emptied d))
    \<and> cleanup p d = d
    \<and> readRegistry (ensureRegistryFile d) = []
    \<and> (n \<notin> set objectPrototype \<longrightarrow>
          discover n d = Inl (ServiceNotFound n)
        \<and> unregister n d = (False, d)
        \<and> updateHealth n h now d = d
        \<and> register n info now p d =
            writeRegistry [(n, \<lparr>url = url info, version = version info,
                                endpoints = endpoints info,
                                registeredAt = now, lastHealthCheck = now, healthy = True,
                                pid = p\<rparr>)] d)"
proof -
  have r: "readRegistry d = []" by (rule readRegistry_unreadable [OF assms])
  have a: "alike d (emptied d)" by (rule alike_emptied [OF assms])
  have e: "readRegistry (ensureRegistryFile d) = []"
    using assms
    by (auto simp: ensureRegistryFile_def writeRegistry_def readRegistry_def
          JSON_stringify_def JSON_parse_def)
  have own: "n \<notin> set objectPrototype \<longrightarrow>
          discover n d = Inl (ServiceNotFound n)
        \<and> unregister n d = (False, d)
        \<and> updateHealth n h now d = d
        \<and> register n info now p d =
            writeRegistry [(n, \<lparr>url = url info, version = version info,
                                endpoints = endpoints info,
                                registeredAt = now, lastHealthCheck = now, healthy = True,
                                pid = p\<rparr>)] d"
  proof
    assume n: "n \<notin> set objectPrototype"
    then have np: "n \<noteq> ''__proto__''" by (auto simp: objectPrototype_def)
    from n show "discover n d = Inl (ServiceNotFound n)
        \<and> unregister n d = (False, d)
        \<and> updateHealth n h now d = d
        \<and> register n info now p d =
            writeRegistry [(n, \<lparr>url = url info, version = version info,
                                endpoints = endpoints info,
                                registeredAt = now, lastHealthCheck = now, healthy = True,
                                pid = p\<rparr>)] d"
      by (simp add: r np discover_absent unregister_def updateHealth_def register_def
            getMember_def)
  qed
  show ?thesis
    using own
    by (simp add: r e alike_discover [OF a] alike_unregister [OF a] alike_updateHealth [OF a]
          alike_register [OF a] getStats_def cleanup_def)
qed

theorem unreadable_store_is_empty_witness:
  "discover ''user-service''
     \<lparr>registryFile = Malformed, writable = True, protoHealthy = False, memberHealthy = []\<rparr>
     = Inl (ServiceNotFound ''user-service'')
   \<and> discover ''toString''
       \<lparr>registryFile = Malformed, writable = True, protoHealthy = False,
        memberHealthy = []\<rparr>
     = discover ''toString'' emptyStore
   \<and> getStats \<lparr>registryFile = Unreadable, writable = False, protoHealthy = False,
               memberHealthy = []\<rparr> = (0, 0, 0)
   \<and> readRegistry (ensureRegistryFile
        \<lparr>registryFile = Missing, writable = True, protoHealthy = False,
         memberHealthy = []\<rparr>) = []
   \<and> map_of (readRegistry (register ''user-service''
                \<lparr>url = ''http://localhost:3001'', version = ''1.0.0'', endpoints = []\<rparr>
                1000 101
                \<lparr>registryFile = Missing, writable = True, protoHealthy = False,
                 memberHealthy = []\<rparr>)) ''user-service''
       = Some (exampleService ''http://localhost:3001'' True 101\<lparr>endpoints := []\<rparr>)"
proof -
  let ?m = "\<lparr>registryFile = Malformed, writable = True, protoHealthy = False,
             memberHealthy = []\<rparr>"
  let ?u = "\<lparr>registryFile = Unreadable, writable = False, protoHealthy = False,
             memberHealthy = []\<rparr>"
  let ?a = "\<lparr>registryFile = Missing, writable = True, protoHealthy = False,
             memberHealthy = []\<rparr>"
  have m: "registryFile ?m \<in> {Missing, Unreadable, Malformed}"
    and u: "registryFile ?u \<in> {Missing, Unreadable, Malformed}"
    and a: "registryFile ?a \<in> {Missing, Unreadable, Malformed}"
    by simp_all
  have own: "''user-service'' \<notin> set objectPrototype" by (simp add: objectPrototype_def)
  have em: "emptied ?m = emptyStore" by (simp add: emptied_def emptyStore_def)
  let ?i = "\<lparr>url = ''http://localhost:3001'', version = ''1.0.0'', endpoints = []\<rparr>"
  note tm = unreadable_store_is_empty [where d = ?m and n = "''user-service''" and h = True
      and now = 1000 and p = 101 and info = ?i, OF m]
  note ts = unreadable_store_is_empty [where d = ?m and n = "''toString''" and h = True
      and now = 1000 and p = 101 and info = ?i, OF m]
  note tu = unreadable_store_is_empty [where d = ?u and n = "''user-service''" and h = True
      and now = 1000 and p = 101 and info = ?i, OF u]
  note ta = unreadable_store_is_empty [where d = ?a and n = "''user-service''" and h = True
      and now = 1000 and p = 101 and info = ?i, OF a]
  from tm own have 1: "discover ''user-service'' ?m = Inl (ServiceNotFound ''user-service'')"
    by blast
  from ts have "discover ''toString'' ?m = discover ''toString'' (emptied ?m)"
    by blast
  then have 2: "discover ''toString'' ?m = discover ''toString'' emptyStore"
    by (simp only: em)
  from tu have 3: "getStats ?u = (0, 0, 0)" by blast
  from ta have 4: "readRegistry (ensureRegistryFile ?a) = []" by blast
  from ta own have "register ''user-service'' ?i 1000 101 ?a =
      writeRegistry [(''user-service'', \<lparr>url = url ?i, version = version ?i,
                                endpoints = endpoints ?i,
                                registeredAt = 1000, lastHealthCheck = 1000, healthy = True,
                                pid = 101\<rparr>)] ?a"
    by blast
  then have 5: "map_of (readRegistry (register ''user-service'' ?i 1000 101 ?a)) ''user-service''
       = Some (exampleService ''http://localhost:3001'' True 101\<lparr>endpoints := []\<rparr>)"
    by (simp add: writeRegistry_def readRegistry_def JSON_stringify_def JSON_parse_def
          exampleService_def)
  from 1 2 3 4 5 show ?thesis by simp
qed

section \<open>Circuit breaker\<close>

lemma exec_short_circuit:
  assumes "cbs n = Some cb" "state cb = Open" "clock w - lastFailTime cb \<le> 30000"
  shows "executeWithCircuitBreaker n operation (cbs, w) = (Inl (CircuitOpen n), cbs, w)"
  using assms by (simp add: executeWithCircuitBreaker_def getCircuitBreaker_def CircuitOpen_def)

lemma exec_success:
  assumes "fst (getCircuitBreaker n cbs) = cb"
    and "\<not> (state cb = Open \<and> clock w - lastFailTime cb \<le> 30000)"
    and "operation (cbs(n \<mapsto> (if state cb = Open then cb\<lparr>state := HalfOpen\<rparr> else cb))) w
           = (Inr result, w')"
  shows "executeWithCircuitBreaker n operation (cbs, w) =
           (Inr result,
            cbs(n \<mapsto> (if state cb = Closed then cb else cb\<lparr>state := Closed, failureCount := 0\<rparr>)),
            w')"
  using assms
  by (cases cb; cases "state cb")
     (auto simp: executeWithCircuitBreaker_def getCircuitBreaker_def Let_def
        split: option.splits)

lemma exec_failure:
  assumes "fst (getCircuitBreaker n cbs) = cb"
    and "\<not> (state cb = Open \<and> clock w - lastFailTime cb \<le> 30000)"
    and "operation (cbs(n \<mapsto> (if state cb = Open then cb\<lparr>state := HalfOpen\<rparr> else cb))) w
           = (Inl error, w')"
  shows "executeWithCircuitBreaker n operation (cbs, w) =
           (Inl error,
            cbs(n \<mapsto> cb\<lparr>state := (if failureCount cb + 1 \<ge> 3 then Open
                                    else if state cb = Open then HalfOpen else state cb),
                          failureCount := failureCount cb + 1,
                          lastFailTime := clock w'\<rparr>),
            w')"
  using assms
  by (cases cb; cases "state cb")
     (auto simp: executeWithCircuitBreaker_def getCircuitBreaker_def Let_def
        split: option.splits)

lemma exec_preserves_ok:
  assumes inv: "\<And>m cb. cbs m = Some cb \<Longrightarrow> breaker_ok cb"
    and ex: "executeWithCircuitBreaker n operation (cbs, w) = (r, cbs', w')"
    and look: "cbs' m = Some cb'"
  shows "breaker_ok cb'"
proof -
  define cb where "cb = fst (getCircuitBreaker n cbs)"
  have cb_ok: "breaker_ok cb"
  proof (cases "cbs n")
    case None
    then show ?thesis by (simp add: cb_def getCircuitBreaker_def breaker_ok_def Let_def)
  next
    case (Some c)
    with inv [of n c] show ?thesis by (simp add: cb_def getCircuitBreaker_def)
  qed
  have g: "fst (getCircuitBreaker n cbs) = cb" by (simp add: cb_def)
  show ?thesis
  proof (cases "state cb = Open \<and> clock w - lastFailTime cb \<le> 30000")
    case True
    then obtain c where "cbs n = Some c" "c = cb"
      by (auto simp: cb_def getCircuitBreaker_def Let_def split: option.splits)
    with True ex have "cbs' = cbs" by (simp add: exec_short_circuit)
    with look inv show ?thesis by simp
  next
    case False
    let ?during = "cbs(n \<mapsto> (if state cb = Open then cb\<lparr>state := HalfOpen\<rparr> else cb))"
    obtain res v where op: "operation ?during w = (res, v)" by (cases "operation ?during w")
    show ?thesis
    proof (cases res)
      case (Inr result)
      with op have "operation ?during w = (Inr result, v)" by simp
      from exec_success [where operation = operation and w = w, OF g False this] ex
      have "cbs' = cbs(n \<mapsto> (if state cb = Closed then cb
                                else cb\<lparr>state := Closed, failureCount := 0\<rparr>))" by simp
      with look inv cb_ok show ?thesis
        by (auto simp: breaker_ok_def split: if_splits)
    next
      case (Inl error)
      with op have "operation ?during w = (Inl error, v)" by simp
      from exec_failure [where operation = operation and w = w, OF g False this] ex
      have "cbs' = cbs(n \<mapsto> cb\<lparr>state := (if failureCount cb + 1 \<ge> 3 then Open
                                    else if state cb = Open then HalfOpen else state cb),
                          failureCount := failureCount cb + 1,
                          lastFailTime := clock w'\<rparr>)" by simp
      with look inv cb_ok show ?thesis
        by (cases "state cb") (auto simp: breaker_ok_def split: if_splits)
    qed
  qed
qed

lemma reachable_ok: "reachable cbs \<Longrightarrow> cbs m = Some cb \<Longrightarrow> breaker_ok cb"
proof (induction arbitrary: m cb rule: reachable.induct)
  case start
  then show ?case by simp
next
  case (call cbs serviceName operation w r cbs' w')
  show ?case
    by (rule exec_preserves_ok [OF _ call.hyps(2) call.prems]) (rule call.IH)
qed

lemma getCircuitBreaker_Some: "cbs n = Some cb \<Longrightarrow> getCircuitBreaker n cbs = (cb, cbs)"
  by (simp add: getCircuitBreaker_def)

lemma reachable_attempt: "reachable (fst gw) \<Longrightarrow> reachable (fst (attempt n operation gw))"
proof -
  assume r: "reachable (fst gw)"
  obtain cbs w where gw: "gw = (cbs, w)" by (cases gw)
  obtain res cbs' w' where ex: "executeWithCircuitBreaker n operation (cbs, w) = (res, cbs', w')"
    by (cases "executeWithCircuitBreaker n operation (cbs, w)")
  from r gw have "reachable cbs" by simp
  from reachable.call [OF this ex] show ?thesis by (simp add: attempt_def gw ex)
qed

lemma attempt_refused:
  "attempt ''svc-b'' refusedCall (cbs, w) =
     (let cb = fst (getCircuitBreaker ''svc-b'' cbs) in
      if state cb = Open \<and> clock w - lastFailTime cb \<le> 30000 then (snd (getCircuitBreaker ''svc-b'' cbs), w)
      else (cbs(''svc-b'' \<mapsto> cb\<lparr>state := (if failureCount cb + 1 \<ge> 3 then Open
                                   else if state cb = Open then HalfOpen else state cb),
                          failureCount := failureCount cb + 1,
                          lastFailTime := clock w + 1\<rparr>),
            \<lparr>clock = clock w + 1, sent = sent w @ [exampleRequest]\<rparr>))"
  by (cases "state (fst (getCircuitBreaker ''svc-b'' cbs))")
     (auto simp: attempt_def executeWithCircuitBreaker_def Let_def axios_def refusing_def
       refusedCall_def getCircuitBreaker_def split: option.splits prod.splits)

lemma attempt_answered:
  "attempt ''svc-b'' answeredCall (cbs, w) =
     (let cb = fst (getCircuitBreaker ''svc-b'' cbs) in
      if state cb = Open \<and> clock w - lastFailTime cb \<le> 30000 then (snd (getCircuitBreaker ''svc-b'' cbs), w)
      else (cbs(''svc-b'' \<mapsto> (if state cb = Closed then cb
                               else cb\<lparr>state := Closed, failureCount := 0\<rparr>)),
            \<lparr>clock = clock w + 5, sent = sent w @ [exampleRequest]\<rparr>))"
  by (cases "state (fst (getCircuitBreaker ''svc-b'' cbs))")
     (auto simp: attempt_def executeWithCircuitBreaker_def Let_def axios_def answering_def
       answeredCall_def getCircuitBreaker_def split: option.splits prod.splits)

lemma one_failure:
  "attempt ''svc-b'' refusedCall startUp =
     ([''svc-b'' \<mapsto> \<lparr>state = Closed, failureCount = 1, lastFailTime = 1\<rparr>],
      \<lparr>clock = 1, sent = [exampleRequest]\<rparr>)"
  by (simp add: startUp_def attempt_refused getCircuitBreaker_def Let_def)

lemma three_failures:
  "attempt ''svc-b'' refusedCall
     (attempt ''svc-b'' refusedCall
       (attempt ''svc-b'' refusedCall startUp)) =
     ([''svc-b'' \<mapsto> \<lparr>state = Open, failureCount = 3, lastFailTime = 3\<rparr>],
      \<lparr>clock = 3, sent = [exampleRequest, exampleRequest, exampleRequest]\<rparr>)"
  by (simp add: one_failure attempt_refused getCircuitBreaker_def Let_def numeral_3_eq_3)

text \<open>
  Against claim C2 as stated: a breaker in the closed state that has counted one failure
  still counts one after a successful call, and three failures with a success between
  each two of them open the breaker.
\<close>

theorem reset_on_success_counterexample:
  "attempt ''svc-b'' answeredCall
     (attempt ''svc-b'' refusedCall startUp) =
     ([''svc-b'' \<mapsto> \<lparr>state = Closed, failureCount = 1, lastFailTime = 1\<rparr>],
      \<lparr>clock = 6, sent = [exampleRequest, exampleRequest]\<rparr>)
   \<and> attempt ''svc-b'' refusedCall
       (attempt ''svc-b'' answeredCall
         (attempt ''svc-b'' refusedCall
           (attempt ''svc-b'' answeredCall
             (attempt ''svc-b'' refusedCall startUp)))) =
     ([''svc-b'' \<mapsto> \<lparr>state = Open, failureCount = 3, lastFailTime = 13\<rparr>],
      \<lparr>clock = 13, sent = [exampleRequest, exampleRequest, exampleRequest, exampleRequest,
                            exampleRequest]\<rparr>)"
  by (simp add: one_failure attempt_refused attempt_answered getCircuitBreaker_def Let_def
        numeral_3_eq_3)

text \<open>
  Claim C2, amended. For every breaker in the closed state (a breaker not yet created
  counts as closed with no failure), the operation runs with the breaker closed, and a
  call that succeeds leaves the breaker as it is:
  \<open>failureCount\<close> is not reset. A call that fails adds one to \<open>failureCount\<close>, stamps
  \<open>lastFailTime\<close>, and opens the breaker when the count reaches 3. So the breaker opens at
  the third failure counted since the count was last reset by a successful half-open
  trial, whether or not successes came in between.
\<close>

theorem closed_breaker_step:
  assumes "fst (getCircuitBreaker n cbs) = cb" and "state cb = Closed"
  shows "(operation (cbs(n \<mapsto> cb)) w = (Inr result, w') \<longrightarrow>
            executeWithCircuitBreaker n operation (cbs, w) = (Inr result, cbs(n \<mapsto> cb), w'))
       \<and> (operation (cbs(n \<mapsto> cb)) w = (Inl error, w') \<longrightarrow>
            executeWithCircuitBreaker n operation (cbs, w) =
              (Inl error,
               cbs(n \<mapsto> cb\<lparr>state := (if 3 \<le> failureCount cb + 1 then Open else Closed),
                            failureCount := failureCount cb + 1,
                            lastFailTime := clock w'\<rparr>),
               w'))"
proof -
  from assms have adm: "\<not> (state cb = Open \<and> clock w - lastFailTime cb \<le> 30000)" by simp
  show ?thesis
    using exec_success [where operation = operation and w = w, OF assms(1) adm]
      exec_failure [where operation = operation and w = w, OF assms(1) adm] assms(2)
    by simp
qed

theorem closed_breaker_step_witness:
  "fst (getCircuitBreaker ''svc-b'' [''svc-b'' \<mapsto> \<lparr>state = Closed, failureCount = 2, lastFailTime = 7\<rparr>])
     = \<lparr>state = Closed, failureCount = 2, lastFailTime = 7\<rparr>
   \<and> executeWithCircuitBreaker ''svc-b'' answeredCall
       ([''svc-b'' \<mapsto> \<lparr>state = Closed, failureCount = 2, lastFailTime = 7\<rparr>],
        \<lparr>clock = 20, sent = []\<rparr>)
     = (Inr \<lparr>status = 200, data = JObj [(''success'', JBool True)]\<rparr>,
        [''svc-b'' \<mapsto> \<lparr>state = Closed, failureCount = 2, lastFailTime = 7\<rparr>],
        \<lparr>clock = 25, sent = [exampleRequest]\<rparr>)
   \<and> executeWithCircuitBreaker ''svc-b'' refusedCall
       ([''svc-b'' \<mapsto> \<lparr>state = Closed, failureCount = 2, lastFailTime = 7\<rparr>],
        \<lparr>clock = 20, sent = []\<rparr>)
     = (Inl \<lparr>message = ''connect ECONNREFUSED 127.0.0.1:3002'', code = Some ''ECONNREFUSED'',
             response = None\<rparr>,
        [''svc-b'' \<mapsto> \<lparr>state = Open, failureCount = 3, lastFailTime = 21\<rparr>],
        \<lparr>clock = 21, sent = [exampleRequest]\<rparr>)"
proof -
  let ?cb = "\<lparr>state = Closed, failureCount = 2, lastFailTime = 7\<rparr>"
  let ?w = "\<lparr>clock = 20, sent = []\<rparr>"
  have g: "fst (getCircuitBreaker ''svc-b'' [''svc-b'' \<mapsto> ?cb]) = ?cb"
    by (simp add: getCircuitBreaker_def)
  have c: "state ?cb = Closed" by simp
  have ok: "answeredCall t ?w
      = (Inr \<lparr>status = 200, data = JObj [(''success'', JBool True)]\<rparr>,
         \<lparr>clock = 25, sent = [exampleRequest]\<rparr>)" for t
    by (simp add: answeredCall_def axios_def answering_def)
  have ko: "refusedCall t ?w
      = (Inl \<lparr>message = ''connect ECONNREFUSED 127.0.0.1:3002'', code = Some ''ECONNREFUSED'',
             response = None\<rparr>, \<lparr>clock = 21, sent = [exampleRequest]\<rparr>)" for t
    by (simp add: refusedCall_def axios_def refusing_def)
  show ?thesis
    using closed_breaker_step [where operation = answeredCall and w = ?w, OF g c]
      closed_breaker_step [where operation = refusedCall and w = ?w, OF g c]
      g ok ko
    by simp
qed

lemma reachable_open_count:
  "reachable cbs \<Longrightarrow> cbs n = Some cb \<Longrightarrow> state cb = Open \<Longrightarrow> 3 \<le> failureCount cb"
  using reachable_ok [of cbs n cb] by (simp add: breaker_ok_def)

text \<open>
  Against claim C3 as stated: exactly 30000 ms after the last failure the call is still
  refused with the circuit-open error and the operation is not run.
\<close>

theorem cooldown_boundary_counterexample:
  "(30003::int) - 3 \<ge> 30000
   \<and> atTime 30003
       (attempt ''svc-b'' refusedCall
         (attempt ''svc-b'' refusedCall
           (attempt ''svc-b'' refusedCall startUp))) =
     ([''svc-b'' \<mapsto> \<lparr>state = Open, failureCount = 3, lastFailTime = 3\<rparr>],
      \<lparr>clock = 30003, sent = [exampleRequest, exampleRequest, exampleRequest]\<rparr>)
   \<and> executeWithCircuitBreaker ''svc-b'' answeredCall
       (atTime 30003
         (attempt ''svc-b'' refusedCall
           (attempt ''svc-b'' refusedCall
             (attempt ''svc-b'' refusedCall startUp)))) =
     (Inl (CircuitOpen ''svc-b''),
      [''svc-b'' \<mapsto> \<lparr>state = Open, failureCount = 3, lastFailTime = 3\<rparr>],
      \<lparr>clock = 30003, sent = [exampleRequest, exampleRequest, exampleRequest]\<rparr>)"
  by (simp add: three_failures atTime_def exec_short_circuit)

text \<open>
  Claim C3, amended. For every open breaker the gateway can hold, once more than 30000 ms
  have passed since \<open>lastFailTime\<close> the next call moves the breaker to half-open and runs
  the operation, which sees the breaker half-open in the table: if the operation succeeds
  the breaker is closed with \<open>failureCount = 0\<close>; if it fails the breaker is open again
  with \<open>lastFailTime\<close> set to the time of the failure.
\<close>

theorem half_open_trial:
  assumes "reachable cbs" and "cbs n = Some cb" and "state cb = Open"
    and "clock w - lastFailTime cb > 30000"
  shows "(operation (cbs(n \<mapsto> cb\<lparr>state := HalfOpen\<rparr>)) w = (Inr result, w') \<longrightarrow>
            executeWithCircuitBreaker n operation (cbs, w) =
              (Inr result, cbs(n \<mapsto> cb\<lparr>state := Closed, failureCount := 0\<rparr>), w'))
       \<and> (operation (cbs(n \<mapsto> cb\<lparr>state := HalfOpen\<rparr>)) w = (Inl error, w') \<longrightarrow>
            executeWithCircuitBreaker n operation (cbs, w) =
              (Inl error,
               cbs(n \<mapsto> cb\<lparr>state := Open, failureCount := failureCount cb + 1,
                            lastFailTime := clock w'\<rparr>),
               w'))"
proof -
  have g: "fst (getCircuitBreaker n cbs) = cb" by (simp add: getCircuitBreaker_Some assms(2))
  from assms(4) have adm: "\<not> (state cb = Open \<and> clock w - lastFailTime cb \<le> 30000)" by simp
  have cnt: "3 \<le> failureCount cb" by (rule reachable_open_count [OF assms(1-3)])
  show ?thesis
    using exec_success [where operation = operation and w = w, OF g adm]
      exec_failure [where operation = operation and w = w, OF g adm] assms(3) cnt
    by simp
qed

theorem half_open_trial_witness:
  "reachable (fst (attempt ''svc-b'' refusedCall
         (attempt ''svc-b'' refusedCall
           (attempt ''svc-b'' refusedCall startUp))))
   \<and> executeWithCircuitBreaker ''svc-b'' answeredCall
       ([''svc-b'' \<mapsto> \<lparr>state = Open, failureCount = 3, lastFailTime = 3\<rparr>],
        \<lparr>clock = 30004, sent = []\<rparr>)
     = (Inr \<lparr>status = 200, data = JObj [(''success'', JBool True)]\<rparr>,
        [''svc-b'' \<mapsto> \<lparr>state = Closed, failureCount = 0, lastFailTime = 3\<rparr>],
        \<lparr>clock = 30009, sent = [exampleRequest]\<rparr>)
   \<and> executeWithCircuitBreaker ''svc-b'' refusedCall
       ([''svc-b'' \<mapsto> \<lparr>state = Open, failureCount = 3, lastFailTime = 3\<rparr>],
        \<lparr>clock = 30004, sent = []\<rparr>)
     = (Inl \<lparr>message = ''connect ECONNREFUSED 127.0.0.1:3002'', code = Some ''ECONNREFUSED'',
             response = None\<rparr>,
        [''svc-b'' \<mapsto> \<lparr>state = Open, failureCount = 4, lastFailTime = 30005\<rparr>],
        \<lparr>clock = 30005, sent = [exampleRequest]\<rparr>)"
proof -
  let ?cb = "\<lparr>state = Open, failureCount = 3, lastFailTime = 3\<rparr>"
  let ?cbs = "[''svc-b'' \<mapsto> ?cb]"
  let ?w = "\<lparr>clock = 30004, sent = []\<rparr>"
  have "reachable (fst startUp)" by (simp add: startUp_def reachable.start)
  then have r3: "reachable (fst (attempt ''svc-b'' refusedCall
         (attempt ''svc-b'' refusedCall
           (attempt ''svc-b'' refusedCall startUp))))"
    by (intro reachable_attempt)
  then have r: "reachable ?cbs" by (simp add: three_failures)
  have l: "?cbs ''svc-b'' = Some ?cb" by simp
  have s: "state ?cb = Open" by simp
  have t: "clock ?w - lastFailTime ?cb > 30000" by simp
  have ok: "answeredCall t ?w
      = (Inr \<lparr>status = 200, data = JObj [(''success'', JBool True)]\<rparr>,
         \<lparr>clock = 30009, sent = [exampleRequest]\<rparr>)" for t
    by (simp add: answeredCall_def axios_def answering_def)
  have ko: "refusedCall t ?w
      = (Inl \<lparr>message = ''connect ECONNREFUSED 127.0.0.1:3002'', code = Some ''ECONNREFUSED'',
             response = None\<rparr>, \<lparr>clock = 30005, sent = [exampleRequest]\<rparr>)" for t
    by (simp add: refusedCall_def axios_def refusing_def)
  show ?thesis
    using half_open_trial [where operation = answeredCall and w = ?w
          and cbs = ?cbs and n = "''svc-b''" and cb = ?cb
          and result = "\<lparr>status = 200, data = JObj [(''success'', JBool True)]\<rparr>"
          and w' = "\<lparr>clock = 30009, sent = [exampleRequest]\<rparr>", OF r l s t]
      half_open_trial [where operation = refusedCall and w = ?w
          and cbs = ?cbs and n = "''svc-b''" and cb = ?cb
          and error = "\<lparr>message = ''connect ECONNREFUSED 127.0.0.1:3002'',
                         code = Some ''ECONNREFUSED'', response = None\<rparr>"
          and w' = "\<lparr>clock = 30005, sent = [exampleRequest]\<rparr>", OF r l s t]
      r3 ok ko
    by simp
qed

text \<open>
  Claim C4. For every open breaker, a call made less than 30000 ms after
  \<open>lastFailTime\<close> fails with the circuit-open error, whatever the operation, and leaves
  the world as it was: the operation is not run. In particular, after three failing calls
  through a breaker that started closed with no failure, a fourth call within the
  cooldown fails with the circuit-open error without running its operation.
\<close>

theorem open_breaker_short_circuits:
  "(cbs n = Some cb \<and> state cb = Open \<and> clock w - lastFailTime cb < 30000 \<longrightarrow>
      executeWithCircuitBreaker n operation (cbs, w) = (Inl (CircuitOpen n), cbs, w))
   \<and> (fst (getCircuitBreaker n cbs0) = cb0 \<and> state cb0 = Closed \<and> failureCount cb0 = 0
      \<and> op1 (cbs0(n \<mapsto> cb0)) w1 = (Inl e1, v1) \<and> op2 cbs1 w2 = (Inl e2, v2)
      \<and> op3 cbs2 w3 = (Inl e3, v3)
      \<and> executeWithCircuitBreaker n op1 (cbs0, w1) = (r1, cbs1, x1)
      \<and> executeWithCircuitBreaker n op2 (cbs1, w2) = (r2, cbs2, x2)
      \<and> executeWithCircuitBreaker n op3 (cbs2, w3) = (r3, cbs3, x3)
      \<and> clock w4 - clock v3 < 30000 \<longrightarrow>
      r1 = Inl e1 \<and> r2 = Inl e2 \<and> r3 = Inl e3 \<and> x1 = v1 \<and> x2 = v2 \<and> x3 = v3
      \<and> executeWithCircuitBreaker n op4 (cbs3, w4) = (Inl (CircuitOpen n), cbs3, w4))"
proof (rule conjI)
  show "cbs n = Some cb \<and> state cb = Open \<and> clock w - lastFailTime cb < 30000 \<longrightarrow>
      executeWithCircuitBreaker n operation (cbs, w) = (Inl (CircuitOpen n), cbs, w)"
    by (simp add: exec_short_circuit)
next
  show "fst (getCircuitBreaker n cbs0) = cb0 \<and> state cb0 = Closed \<and> failureCount cb0 = 0
      \<and> op1 (cbs0(n \<mapsto> cb0)) w1 = (Inl e1, v1) \<and> op2 cbs1 w2 = (Inl e2, v2)
      \<and> op3 cbs2 w3 = (Inl e3, v3)
      \<and> executeWithCircuitBreaker n op1 (cbs0, w1) = (r1, cbs1, x1)
      \<and> executeWithCircuitBreaker n op2 (cbs1, w2) = (r2, cbs2, x2)
      \<and> executeWithCircuitBreaker n op3 (cbs2, w3) = (r3, cbs3, x3)
      \<and> clock w4 - clock v3 < 30000 \<longrightarrow>
      r1 = Inl e1 \<and> r2 = Inl e2 \<and> r3 = Inl e3 \<and> x1 = v1 \<and> x2 = v2 \<and> x3 = v3
      \<and> executeWithCircuitBreaker n op4 (cbs3, w4) = (Inl (CircuitOpen n), cbs3, w4)"
  proof (rule impI)
  assume a: "fst (getCircuitBreaker n cbs0) = cb0 \<and> state cb0 = Closed \<and> failureCount cb0 = 0
      \<and> op1 (cbs0(n \<mapsto> cb0)) w1 = (Inl e1, v1) \<and> op2 cbs1 w2 = (Inl e2, v2)
      \<and> op3 cbs2 w3 = (Inl e3, v3)
      \<and> executeWithCircuitBreaker n op1 (cbs0, w1) = (r1, cbs1, x1)
      \<and> executeWithCircuitBreaker n op2 (cbs1, w2) = (r2, cbs2, x2)
      \<and> executeWithCircuitBreaker n op3 (cbs2, w3) = (r3, cbs3, x3)
      \<and> clock w4 - clock v3 < 30000"
  define c1 where "c1 = cb0\<lparr>state := Closed, failureCount := 1, lastFailTime := clock v1\<rparr>"
  define c2 where "c2 = cb0\<lparr>state := Closed, failureCount := 2, lastFailTime := clock v2\<rparr>"
  define c3 where "c3 = cb0\<lparr>state := Open, failureCount := 3, lastFailTime := clock v3\<rparr>"
  from a have g0: "fst (getCircuitBreaker n cbs0) = cb0" and s0: "state cb0 = Closed"
    and f0: "failureCount cb0 = 0" by simp_all
  from s0 have adm0: "\<not> (state cb0 = Open \<and> clock w1 - lastFailTime cb0 \<le> 30000)" by simp
  from a s0 have o1: "op1 (cbs0(n \<mapsto> (if state cb0 = Open then cb0\<lparr>state := HalfOpen\<rparr> else cb0))) w1
      = (Inl e1, v1)" by simp
  from exec_failure [where operation = op1 and w = w1, OF g0 adm0 o1] a s0 f0
  have 1: "r1 = Inl e1" "x1 = v1" "cbs1 = cbs0(n \<mapsto> c1)" by (simp_all add: c1_def)
  have g1: "fst (getCircuitBreaker n cbs1) = c1" by (simp add: 1 getCircuitBreaker_def)
  have adm1: "\<not> (state c1 = Open \<and> clock w2 - lastFailTime c1 \<le> 30000)"
    by (simp add: c1_def s0)
  from a 1 have o2: "op2 (cbs1(n \<mapsto> (if state c1 = Open then c1\<lparr>state := HalfOpen\<rparr> else c1))) w2
      = (Inl e2, v2)" by (simp add: c1_def)
  from exec_failure [where operation = op2 and w = w2, OF g1 adm1 o2] a s0
  have 2: "r2 = Inl e2" "x2 = v2" "cbs2 = cbs1(n \<mapsto> c2)"
    by (simp_all add: c1_def c2_def numeral_2_eq_2)
  have g2: "fst (getCircuitBreaker n cbs2) = c2" by (simp add: 2 getCircuitBreaker_def)
  have adm2: "\<not> (state c2 = Open \<and> clock w3 - lastFailTime c2 \<le> 30000)"
    by (simp add: c2_def s0)
  from a 2 have o3: "op3 (cbs2(n \<mapsto> (if state c2 = Open then c2\<lparr>state := HalfOpen\<rparr> else c2))) w3
      = (Inl e3, v3)" by (simp add: c2_def)
  from exec_failure [where operation = op3 and w = w3, OF g2 adm2 o3] a s0
  have 3: "r3 = Inl e3" "x3 = v3" "cbs3 = cbs2(n \<mapsto> c3)"
    by (simp_all add: c2_def c3_def numeral_3_eq_3)
  have l3: "cbs3 n = Some c3" by (simp add: 3)
  from a have "clock w4 - lastFailTime c3 \<le> 30000" by (simp add: c3_def)
  from exec_short_circuit [where cbs = cbs3 and n = n and cb = c3 and w = w4, OF l3 _ this]
  have "executeWithCircuitBreaker n op4 (cbs3, w4) = (Inl (CircuitOpen n), cbs3, w4)"
    by (simp add: c3_def)
  with 1 2 3
  show "r1 = Inl e1 \<and> r2 = Inl e2 \<and> r3 = Inl e3 \<and> x1 = v1 \<and> x2 = v2 \<and> x3 = v3
      \<and> executeWithCircuitBreaker n op4 (cbs3, w4) = (Inl (CircuitOpen n), cbs3, w4)"
    by simp
qed
qed

lemma refused_call:
  "refusedCall t w =
     (Inl \<lparr>message = ''connect ECONNREFUSED 127.0.0.1:3002'', code = Some ''ECONNREFUSED'',
           response = None\<rparr>, \<lparr>clock = clock w + 1, sent = sent w @ [exampleRequest]\<rparr>)"
  by (simp add: refusedCall_def axios_def refusing_def)

theorem open_breaker_short_circuits_witness:
  "executeWithCircuitBreaker ''svc-b'' answeredCall
     (attempt ''svc-b'' refusedCall
       (attempt ''svc-b'' refusedCall
         (attempt ''svc-b'' refusedCall startUp))) =
     (Inl (CircuitOpen ''svc-b''),
      [''svc-b'' \<mapsto> \<lparr>state = Open, failureCount = 3, lastFailTime = 3\<rparr>],
      \<lparr>clock = 3, sent = [exampleRequest, exampleRequest, exampleRequest]\<rparr>)
   \<and> length (sent (snd (snd (executeWithCircuitBreaker ''svc-b'' answeredCall
     (attempt ''svc-b'' refusedCall
       (attempt ''svc-b'' refusedCall
         (attempt ''svc-b'' refusedCall startUp))))))) = 3
   \<and> executeWithCircuitBreaker ''svc-b'' answeredCall
       ([''svc-b'' \<mapsto> \<lparr>state = Open, failureCount = 3, lastFailTime = 3\<rparr>],
        \<lparr>clock = 30002, sent = []\<rparr>) =
     (Inl (CircuitOpen ''svc-b''),
      [''svc-b'' \<mapsto> \<lparr>state = Open, failureCount = 3, lastFailTime = 3\<rparr>],
      \<lparr>clock = 30002, sent = []\<rparr>)"
proof -
  let ?R = refusedCall
  let ?e = "\<lparr>message = ''connect ECONNREFUSED 127.0.0.1:3002'', code = Some ''ECONNREFUSED'',
           response = None\<rparr>"
  let ?w0 = "\<lparr>clock = 0, sent = []\<rparr>"
  let ?w1 = "\<lparr>clock = 1, sent = [exampleRequest]\<rparr>"
  let ?w2 = "\<lparr>clock = 2, sent = [exampleRequest, exampleRequest]\<rparr>"
  let ?w3 = "\<lparr>clock = 3, sent = [exampleRequest, exampleRequest, exampleRequest]\<rparr>"
  let ?cb0 = "\<lparr>state = Closed, failureCount = 0, lastFailTime = 0\<rparr>"
  let ?cbs1 = "[''svc-b'' \<mapsto> \<lparr>state = Closed, failureCount = 1, lastFailTime = 1\<rparr>]"
  let ?cbs2 = "[''svc-b'' \<mapsto> \<lparr>state = Closed, failureCount = 2, lastFailTime = 2\<rparr>]"
  let ?cbs3 = "[''svc-b'' \<mapsto> \<lparr>state = Open, failureCount = 3, lastFailTime = 3\<rparr>]"
  have g: "fst (getCircuitBreaker ''svc-b'' Map.empty) = ?cb0"
    by (simp add: getCircuitBreaker_def Let_def)
  have o1: "?R (Map.empty(''svc-b'' \<mapsto> ?cb0)) ?w0 = (Inl ?e, ?w1)"
    and o2: "?R ?cbs1 ?w1 = (Inl ?e, ?w2)"
    and o3: "?R ?cbs2 ?w2 = (Inl ?e, ?w3)"
    by (simp_all add: refused_call)
  have e1: "executeWithCircuitBreaker ''svc-b'' ?R (Map.empty, ?w0) = (Inl ?e, ?cbs1, ?w1)"
    by (simp add: executeWithCircuitBreaker_def getCircuitBreaker_def Let_def refused_call
          numeral_2_eq_2 numeral_3_eq_3)
  have e2: "executeWithCircuitBreaker ''svc-b'' ?R (?cbs1, ?w1) = (Inl ?e, ?cbs2, ?w2)"
    by (simp add: executeWithCircuitBreaker_def getCircuitBreaker_def Let_def refused_call
          numeral_2_eq_2 numeral_3_eq_3)
  have e3: "executeWithCircuitBreaker ''svc-b'' ?R (?cbs2, ?w2) = (Inl ?e, ?cbs3, ?w3)"
    by (simp add: executeWithCircuitBreaker_def getCircuitBreaker_def Let_def refused_call
          numeral_2_eq_2 numeral_3_eq_3)
  have t: "clock ?w3 - clock ?w3 < 30000" by simp
  have "executeWithCircuitBreaker ''svc-b'' answeredCall (?cbs3, ?w3)
      = (Inl (CircuitOpen ''svc-b''), ?cbs3, ?w3)"
    by (rule open_breaker_short_circuits [where n = "''svc-b''" and ?cbs0.0 = Map.empty and ?cb0.0 = ?cb0
        and ?op1.0 = ?R and ?op2.0 = ?R and ?op3.0 = ?R
        and ?w1.0 = ?w0 and ?v1.0 = ?w1 and ?w2.0 = ?w1 and ?v2.0 = ?w2
        and ?w3.0 = ?w2 and ?v3.0 = ?w3 and ?w4.0 = ?w3
        and ?e1.0 = ?e and ?e2.0 = ?e and ?e3.0 = ?e
        and ?cbs1.0 = ?cbs1 and ?cbs2.0 = ?cbs2 and ?cbs3.0 = ?cbs3
        and ?x1.0 = ?w1 and ?x2.0 = ?w2 and ?x3.0 = ?w3
        and ?r1.0 = "Inl ?e" and ?r2.0 = "Inl ?e" and ?r3.0 = "Inl ?e"
        and ?op4.0 = answeredCall,
        THEN conjunct2, THEN mp, THEN conjunct2, THEN conjunct2, THEN conjunct2,
        THEN conjunct2, THEN conjunct2, THEN conjunct2])
       (simp del: One_nat_def add: g o1 o2 o3 e1 e2 e3)
  moreover
  have "executeWithCircuitBreaker ''svc-b'' answeredCall (?cbs3, \<lparr>clock = 30002, sent = []\<rparr>)
      = (Inl (CircuitOpen ''svc-b''), ?cbs3, \<lparr>clock = 30002, sent = []\<rparr>)"
    by (rule open_breaker_short_circuits [where n = "''svc-b''" and cbs = ?cbs3
        and cb = "\<lparr>state = Open, failureCount = 3, lastFailTime = 3\<rparr>"
        and w = "\<lparr>clock = 30002, sent = []\<rparr>" and operation = answeredCall,
        THEN conjunct1, THEN mp])
       simp
  ultimately show ?thesis by (simp add: three_failures)
qed

section \<open>Proxy\<close>

lemma startsWith_prefix: "startsWith s p = prefix p s"
proof
  assume "startsWith s p"
  then have "s = p @ drop (length p) s"
    by (metis append_take_drop_id startsWith_def)
  then show "prefix p s" by (metis prefixI)
next
  assume "prefix p s"
  then show "startsWith s p" by (auto simp: startsWith_def prefix_def)
qed

lemma str_includes_prefix: "startsWith s p \<Longrightarrow> str_includes s p"
  by (cases s) (auto simp: startsWith_def)

lemma str_includes_append_right: "str_includes s p \<Longrightarrow> str_includes (s @ post) p"
proof (induction s)
  case Nil
  then show ?case by (simp add: str_includes_prefix startsWith_def)
next
  case (Cons c cs)
  have "prefix p (c # cs) \<Longrightarrow> prefix p ((c # cs) @ post)" by (rule prefix_prefix)
  with Cons show ?case by (auto simp: startsWith_prefix)
qed

lemma notFound_includes:
  "str_includes (notFoundMessage n) (''n'' @ [CHR 0xE3] @ ''o encontrado'')"
proof -
  have "str_includes (''Servi'' @ [CHR 0xE7] @ ''o n'' @ [CHR 0xE3] @ ''o encontrado: '')
          (''n'' @ [CHR 0xE3] @ ''o encontrado'')"
    by (simp add: startsWith_def)
  from str_includes_append_right [OF this, of n] show ?thesis
    by (simp add: notFoundMessage_def)
qed

lemma circuitOpen_includes:
  "str_includes (circuitOpenMessage n) ''Circuit breaker aberto''"
proof -
  have "str_includes ''Circuit breaker aberto para '' ''Circuit breaker aberto''"
    by (simp add: startsWith_def)
  from str_includes_append_right [OF this, of n] show ?thesis
    by (simp add: circuitOpenMessage_def)
qed

lemma proxyFailure_circuit_open:
  "proxyFailure n (CircuitOpen n) =
     \<lparr>statusCode = 503, resHeaders = [],
      sentBody = JObj [(''success'', JBool False),
        (''message'', JStr (''Servi'' @ [CHR 0xE7] @ ''o temporariamente indispon'' @ [CHR 0xED] @ ''vel'')),
        (''service'', JStr n),
        (''error'', JStr ''Circuit breaker aberto'')]\<rparr>"
  by (simp add: proxyFailure_def CircuitOpen_def Error_def circuitOpen_includes)

lemma proxyFailure_not_found:
  "statusCode (proxyFailure n (ServiceNotFound n)) = 503
   \<and> getProp (sentBody (proxyFailure n (ServiceNotFound n))) ''service'' = Inr (JStr n)"
  using notFound_includes [of n]
  by (simp add: proxyFailure_def ServiceNotFound_def Error_def)

lemma proxyFailure_refused:
  "code error = Some ''ECONNREFUSED'' \<Longrightarrow>
   statusCode (proxyFailure n error) = 503
   \<and> getProp (sentBody (proxyFailure n error)) ''service'' = Inr (JStr n)"
  by (simp add: proxyFailure_def)

lemma proxyFailure_relay:
  assumes "\<not> str_includes (message error) ''Circuit breaker aberto''"
    and "\<not> str_includes (message error) (''n'' @ [CHR 0xE3] @ ''o encontrado'')"
    and "code error \<noteq> Some ''ECONNREFUSED''"
    and "response error = Some r"
  shows "proxyFailure n error = \<lparr>statusCode = status r, resHeaders = [], sentBody = data r\<rparr>"
  using assms by (simp add: proxyFailure_def)

lemma proxyFailure_other:
  assumes "\<not> str_includes (message error) ''Circuit breaker aberto''"
    and "\<not> str_includes (message error) (''n'' @ [CHR 0xE3] @ ''o encontrado'')"
    and "code error \<noteq> Some ''ECONNREFUSED''"
    and "response error = None"
  shows "statusCode (proxyFailure n error) = 500"
  using assms by (simp add: proxyFailure_def)

lemma unavailable_user_service_message:
  "\<not> str_includes (unavailableMessage ''user-service'') ''Circuit breaker aberto''
   \<and> \<not> str_includes (unavailableMessage ''user-service'') (''n'' @ [CHR 0xE3] @ ''o encontrado'')"
  by (simp add: unavailableMessage_def startsWith_def)

lemma proxy_circuit_open:
  assumes "discover n d = Inr s" and "cbs n = Some cb" and "state cb = Open"
    and "clock w - lastFailTime cb \<le> 30000"
  shows "proxyToService n req d net (cbs, w) = (proxyFailure n (CircuitOpen n), cbs, w)"
  using assms by (simp add: proxyToService_def exec_short_circuit)

lemma proxy_call_fails:
  assumes "discover n d = Inr s" and "fst (getCircuitBreaker n cbs) = cb"
    and "\<not> (state cb = Open \<and> clock w - lastFailTime cb \<le> 30000)"
    and "axios net (forwardedRequest s req) w = (Inl e, w')"
  shows "fst (proxyToService n req d net (cbs, w)) = proxyFailure n e"
  using assms(1)
    exec_failure [where operation = "\<lambda>cbs. axios net (forwardedRequest s req)",
      OF assms(2) assms(3) assms(4)]
  by (simp add: proxyToService_def)

lemma proxy_call_succeeds:
  assumes "discover n d = Inr s" and "fst (getCircuitBreaker n cbs) = cb"
    and "\<not> (state cb = Open \<and> clock w - lastFailTime cb \<le> 30000)"
    and "axios net (forwardedRequest s req) w = (Inr r, w')"
  shows "fst (proxyToService n req d net (cbs, w)) =
           \<lparr>statusCode = status r,
            resHeaders = [(''X-Proxied-By'', ''api-gateway''), (''X-Service-Source'', n)],
            sentBody = data r\<rparr>"
  using assms(1)
    exec_success [where operation = "\<lambda>cbs. axios net (forwardedRequest s req)",
      OF assms(2) assms(3) assms(4)]
  by (simp add: proxyToService_def)

lemma proxy_discovery_failure:
  "discover n d = Inl error \<Longrightarrow> proxyToService n req d net gw = (proxyFailure n error, gw)"
  by (simp add: proxyToService_def)

text \<open>
  Claim C1, at the input where the code departs from it. \<open>user-service\<close> is registered
  with \<open>healthy = false\<close>, so \<open>discover\<close> throws the unavailable error; its message
  holds neither \<open>Circuit breaker aberto\<close> nor the words of the not-found message, it has no
  \<open>code\<close> and no \<open>response\<close>, and the proxy answers 500 where the claim says 503.
\<close>

theorem unhealthy_service_answers_500:
  "discover ''user-service'' exampleDisk = Inl (ServiceUnavailable ''user-service'')
   \<and> proxyToService ''user-service'' exampleInbound exampleDisk answering startUp =
       (\<lparr>statusCode = 500, resHeaders = [],
         sentBody = JObj [(''success'', JBool False),
                          (''message'', JStr ''Erro interno do gateway''),
                          (''service'', JStr ''user-service'')]\<rparr>, startUp)"
proof -
  have d: "discover ''user-service'' exampleDisk = Inl (ServiceUnavailable ''user-service'')"
    by (rule discover_unhealthy [where s = "exampleService ''http://localhost:3001'' False 101"])
       (simp_all add: exampleDisk_read exampleService_def)
  have "proxyFailure ''user-service'' (ServiceUnavailable ''user-service'') =
       \<lparr>statusCode = 500, resHeaders = [],
         sentBody = JObj [(''success'', JBool False),
                          (''message'', JStr ''Erro interno do gateway''),
                          (''service'', JStr ''user-service'')]\<rparr>"
    using unavailable_user_service_message
    by (simp add: proxyFailure_def ServiceUnavailable_def Error_def)
  with d show ?thesis by (simp add: proxy_discovery_failure)
qed

section \<open>Bearer validation\<close>

lemma healthyDisk_read:
  "readRegistry healthyDisk =
     [(''user-service'', exampleService ''http://localhost:3001'' True 101),
      (''item-service'', exampleService ''http://localhost:3002'' True 102),
      (''list-service'', exampleService ''http://localhost:3003'' True 103)]"
  by (simp add: healthyDisk_def readRegistry_def JSON_parse_def)

lemma healthyDisk_discover:
  "discover ''user-service'' healthyDisk = Inr (Registered (exampleService ''http://localhost:3001'' True 101))"
  "discover ''item-service'' healthyDisk = Inr (Registered (exampleService ''http://localhost:3002'' True 102))"
  "discover ''list-service'' healthyDisk = Inr (Registered (exampleService ''http://localhost:3003'' True 103))"
  by (simp_all add: discover_def getMember_def healthyDisk_read exampleService_def)

lemma statusCode_rejections:
  "statusCode tokenRequired = 401" "statusCode tokenInvalid = 401"
  by (simp_all add: tokenRequired_def tokenInvalid_def)

lemma authMiddleware_rejects_401:
  "authMiddleware req d net w = (Rejected r, w') \<Longrightarrow> statusCode r = 401"
  by (auto simp: authMiddleware_def statusCode_rejections
      split: option.splits if_splits sum.splits prod.splits)

lemma authMiddleware_no_bearer:
  "map_of (reqHeaders req) ''authorization'' = None
   \<or> (\<exists>h. map_of (reqHeaders req) ''authorization'' = Some h \<and> \<not> startsWith h ''Bearer '')
   \<Longrightarrow> authMiddleware req d net w = (Rejected tokenRequired, w)"
  by (auto simp: authMiddleware_def)

lemma authMiddleware_discovery_fails:
  "map_of (reqHeaders req) ''authorization'' = Some h \<Longrightarrow> startsWith h ''Bearer '' \<Longrightarrow>
   discover ''user-service'' d = Inl e \<Longrightarrow>
   authMiddleware req d net w = (Rejected tokenInvalid, w)"
  by (simp add: authMiddleware_def)

lemma authMiddleware_validation_fails:
  "map_of (reqHeaders req) ''authorization'' = Some h \<Longrightarrow> startsWith h ''Bearer '' \<Longrightarrow>
   discover ''user-service'' d = Inr s \<Longrightarrow>
   axios_post net (urlOf s @ ''/auth/validate'')
     (JObj [(''token'', JStr (replace h ''Bearer '' []))]) (Some 5000) w = (Inl e, w') \<Longrightarrow>
   authMiddleware req d net w = (Rejected tokenInvalid, w')"
  by (simp add: authMiddleware_def)

text \<open>
  Claim C10. On a route behind the bearer middleware: a request without a
  \<open>Bearer\<close> authorization header is answered 401; with such a header, when the
  user service cannot be discovered (absent from the registry or marked unhealthy) or the
  validation call throws (an error or a timeout), the answer is 401 as well. Whenever
  the middleware answers itself the status is 401, and the answer of the route is that
  answer whatever the handler is: the handler is not run.
\<close>

theorem auth_failure_answers_401:
  "(map_of (reqHeaders req) ''authorization'' = None
      \<or> (\<exists>h. map_of (reqHeaders req) ''authorization'' = Some h \<and> \<not> startsWith h ''Bearer '')
      \<longrightarrow> protectedRoute handler req d net w = (tokenRequired, w))
   \<and> (map_of (reqHeaders req) ''authorization'' = Some h \<and> startsWith h ''Bearer ''
      \<and> discover ''user-service'' d = Inl e
      \<longrightarrow> protectedRoute handler req d net w = (tokenInvalid, w))
   \<and> (map_of (reqHeaders req) ''authorization'' = Some h \<and> startsWith h ''Bearer ''
      \<and> discover ''user-service'' d = Inr s
      \<and> axios_post net (urlOf s @ ''/auth/validate'')
           (JObj [(''token'', JStr (replace h ''Bearer '' []))]) (Some 5000) w = (Inl e, w')
      \<longrightarrow> protectedRoute handler req d net w = (tokenInvalid, w'))
   \<and> (authMiddleware req d net w = (Rejected r, v)
      \<longrightarrow> statusCode r = 401 \<and> protectedRoute handler req d net w = (r, v))
   \<and> statusCode tokenRequired = 401 \<and> statusCode tokenInvalid = 401"
proof (intro conjI impI)
  assume "map_of (reqHeaders req) ''authorization'' = None
      \<or> (\<exists>h. map_of (reqHeaders req) ''authorization'' = Some h \<and> \<not> startsWith h ''Bearer '')"
  from authMiddleware_no_bearer [OF this]
  show "protectedRoute handler req d net w = (tokenRequired, w)"
    by (simp add: protectedRoute_def)
next
  assume "map_of (reqHeaders req) ''authorization'' = Some h \<and> startsWith h ''Bearer ''
      \<and> discover ''user-service'' d = Inl e"
  then show "protectedRoute handler req d net w = (tokenInvalid, w)"
    by (simp add: protectedRoute_def authMiddleware_discovery_fails)
next
  assume "map_of (reqHeaders req) ''authorization'' = Some h \<and> startsWith h ''Bearer ''
      \<and> discover ''user-service'' d = Inr s
      \<and> axios_post net (urlOf s @ ''/auth/validate'')
           (JObj [(''token'', JStr (replace h ''Bearer '' []))]) (Some 5000) w = (Inl e, w')"
  then show "protectedRoute handler req d net w = (tokenInvalid, w')"
    by (simp add: protectedRoute_def authMiddleware_validation_fails)
next
  assume a: "authMiddleware req d net w = (Rejected r, v)"
  then show "statusCode r = 401" by (rule authMiddleware_rejects_401)
  from a show "protectedRoute handler req d net w = (r, v)"
    by (simp add: protectedRoute_def)
qed (simp_all add: statusCode_rejections)

lemma bearerInbound_header:
  "map_of (reqHeaders bearerInbound) ''authorization'' = Some ''Bearer abc''"
  "startsWith ''Bearer abc'' ''Bearer ''"
  by (simp_all add: bearerInbound_def startsWith_def)

theorem auth_failure_answers_401_witness:
  "dashboardRoute exampleInbound healthyDisk answering \<lparr>clock = 0, sent = []\<rparr>
     = (tokenRequired, \<lparr>clock = 0, sent = []\<rparr>)
   \<and> dashboardRoute bearerInbound exampleDisk answering \<lparr>clock = 0, sent = []\<rparr>
     = (tokenInvalid, \<lparr>clock = 0, sent = []\<rparr>)
   \<and> dashboardRoute bearerInbound \<lparr>registryFile = Missing, writable = True, protoHealthy = False, memberHealthy = []\<rparr> answering
       \<lparr>clock = 0, sent = []\<rparr>
     = (tokenInvalid, \<lparr>clock = 0, sent = []\<rparr>)
   \<and> dashboardRoute bearerInbound healthyDisk refusing \<lparr>clock = 0, sent = []\<rparr>
     = (tokenInvalid,
        \<lparr>clock = 1,
         sent = [\<lparr>verb = ''POST'', target = ''http://localhost:3001/auth/validate'',
                  payload = JObj [(''token'', JStr ''abc'')], headers = [], params = [],
                  timeout = Some 5000\<rparr>]\<rparr>)
   \<and> statusCode tokenRequired = 401 \<and> statusCode tokenInvalid = 401"
proof -
  let ?w = "\<lparr>clock = 0, sent = []\<rparr>"
  have nb: "map_of (reqHeaders exampleInbound) ''authorization'' = None"
    by (simp add: exampleInbound_def)
  have du: "discover ''user-service'' exampleDisk = Inl (ServiceUnavailable ''user-service'')"
    by (rule discover_unhealthy [where s = "exampleService ''http://localhost:3001'' False 101"])
       (simp_all add: exampleDisk_read exampleService_def)
  have dm: "discover ''user-service'' \<lparr>registryFile = Missing, writable = True, protoHealthy = False, memberHealthy = []\<rparr>
      = Inl (ServiceNotFound ''user-service'')"
    by (simp add: discover_absent readRegistry_def objectPrototype_def)
  have post: "axios_post refusing
      (urlOf (Registered (exampleService ''http://localhost:3001'' True 101)) @ ''/auth/validate'')
      (JObj [(''token'', JStr (replace ''Bearer abc'' ''Bearer '' []))]) (Some 5000) ?w
      = (Inl \<lparr>message = ''connect ECONNREFUSED 127.0.0.1:3002'', code = Some ''ECONNREFUSED'',
              response = None\<rparr>,
         \<lparr>clock = 1,
          sent = [\<lparr>verb = ''POST'', target = ''http://localhost:3001/auth/validate'',
                   payload = JObj [(''token'', JStr ''abc'')], headers = [], params = [],
                   timeout = Some 5000\<rparr>]\<rparr>)"
    by (simp add: axios_post_def axios_def refusing_def exampleService_def startsWith_def)
  show ?thesis
    using auth_failure_answers_401 [where req = exampleInbound and d = healthyDisk
        and net = answering and w = ?w and handler = "dashboardHandler healthyDisk answering"]
      auth_failure_answers_401 [where req = bearerInbound and d = exampleDisk
        and net = answering and w = ?w and handler = "dashboardHandler exampleDisk answering"
        and h = "''Bearer abc''" and e = "ServiceUnavailable ''user-service''"]
      auth_failure_answers_401 [where req = bearerInbound
        and d = "\<lparr>registryFile = Missing, writable = True, protoHealthy = False, memberHealthy = []\<rparr>"
        and net = answering and w = ?w
        and handler = "dashboardHandler \<lparr>registryFile = Missing, writable = True, protoHealthy = False, memberHealthy = []\<rparr> answering"
        and h = "''Bearer abc''" and e = "ServiceNotFound ''user-service''"]
      auth_failure_answers_401 [where req = bearerInbound and d = healthyDisk
        and net = refusing and w = ?w and handler = "dashboardHandler healthyDisk refusing"
        and h = "''Bearer abc''" and s = "Registered (exampleService ''http://localhost:3001'' True 101)"
        and e = "\<lparr>message = ''connect ECONNREFUSED 127.0.0.1:3002'',
                     code = Some ''ECONNREFUSED'', response = None\<rparr>"
        and w' = "\<lparr>clock = 1,
          sent = [\<lparr>verb = ''POST'', target = ''http://localhost:3001/auth/validate'',
                   payload = JObj [(''token'', JStr ''abc'')], headers = [], params = [],
                   timeout = Some 5000\<rparr>]\<rparr>"]
      auth_failure_answers_401 [where req = bearerInbound and d = exampleDisk
        and net = answering and w = ?w and handler = "dashboardHandler exampleDisk answering"
        and r = tokenInvalid and v = ?w]
      authMiddleware_discovery_fails [where req = bearerInbound and d = exampleDisk
        and net = answering and w = ?w and h = "''Bearer abc''", OF _ _ du]
      nb du dm post bearerInbound_header healthyDisk_discover
    by (simp add: dashboardRoute_def)
qed

section \<open>Global search\<close>

lemma sent_axios: "sent (snd (axios net req w)) = sent w @ [req]"
  by (simp add: axios_def split: prod.split)

lemma axios_get_search:
  "axios_get net (base @ ''/search'') [] [(''q'', JStr query)] (Some 5000) w
     = axios net (searchRequest base query) w"
  by (simp add: axios_get_def searchRequest_def)

lemma search_lists_empty: "lists (fst (performGlobalSearch query searchType d net w)) = JArr []"
  by (simp add: performGlobalSearch_def Let_def split: prod.split sum.split)

lemma search_sent:
  "sent (snd (performGlobalSearch query searchType d net w)) =
     sent w @ (if searchType = ''all'' \<or> searchType = ''items''
               then (case discover ''item-service'' d of
                       Inl e \<Rightarrow> []
                     | Inr s \<Rightarrow> [searchRequest (urlOf s) query])
               else [])"
proof (cases "searchType = ''all'' \<or> searchType = ''items''")
  case False
  then show ?thesis by (simp add: performGlobalSearch_def Let_def)
next
  case True
  show ?thesis
  proof (cases "discover ''item-service'' d")
    case (Inl e)
    with True show ?thesis by (auto simp: performGlobalSearch_def Let_def)
  next
    case (Inr s)
    obtain res v where ax: "axios net (searchRequest (urlOf s) query) w = (res, v)"
      by (cases "axios net (searchRequest (urlOf s) query) w")
    from sent_axios [of net "searchRequest (urlOf s) query" w] ax
    have v: "sent v = sent w @ [searchRequest (urlOf s) query]" by simp
    from True Inr ax v show ?thesis
      by (auto simp: performGlobalSearch_def Let_def axios_get_search split: sum.split)
  qed
qed

text \<open>
  Claim C9. For every query and every type selector, \<open>performGlobalSearch\<close> returns an
  empty \<open>lists\<close> array and sends at most one request, the search to the address
  registered for \<open>item-service\<close> (and only for the selectors \<open>all\<close> and \<open>items\<close>):
  nothing is sent to the list service. When the item service cannot be discovered or its
  call throws, \<open>items\<close> is the empty array and the search still returns.
\<close>

theorem global_search_leaves_lists_alone:
  "lists (fst (performGlobalSearch query searchType d net w)) = JArr []
   \<and> sent (snd (performGlobalSearch query searchType d net w)) =
       sent w @ (if searchType = ''all'' \<or> searchType = ''items''
                 then (case discover ''item-service'' d of
                         Inl e \<Rightarrow> []
                       | Inr s \<Rightarrow> [searchRequest (urlOf s) query])
                 else [])
   \<and> (searchType = ''lists'' \<longrightarrow>
        performGlobalSearch query searchType d net w = (\<lparr>items = JArr [], lists = JArr []\<rparr>, w))
   \<and> (discover ''item-service'' d = Inl e \<longrightarrow>
        performGlobalSearch query searchType d net w = (\<lparr>items = JArr [], lists = JArr []\<rparr>, w))
   \<and> ((searchType = ''all'' \<or> searchType = ''items'') \<and> discover ''item-service'' d = Inr s
        \<and> axios net (searchRequest (urlOf s) query) w = (Inl e', w') \<longrightarrow>
        performGlobalSearch query searchType d net w = (\<lparr>items = JArr [], lists = JArr []\<rparr>, w'))"
proof (intro conjI impI)
  show "lists (fst (performGlobalSearch query searchType d net w)) = JArr []"
    by (rule search_lists_empty)
  show "sent (snd (performGlobalSearch query searchType d net w)) =
       sent w @ (if searchType = ''all'' \<or> searchType = ''items''
                 then (case discover ''item-service'' d of
                         Inl e \<Rightarrow> []
                       | Inr s \<Rightarrow> [searchRequest (urlOf s) query])
                 else [])"
    by (rule search_sent)
  show "performGlobalSearch query searchType d net w = (\<lparr>items = JArr [], lists = JArr []\<rparr>, w)"
    if "searchType = ''lists''"
    using that by (simp add: performGlobalSearch_def Let_def)
  show "performGlobalSearch query searchType d net w = (\<lparr>items = JArr [], lists = JArr []\<rparr>, w)"
    if "discover ''item-service'' d = Inl e"
    using that by (simp add: performGlobalSearch_def Let_def)
  show "performGlobalSearch query searchType d net w = (\<lparr>items = JArr [], lists = JArr []\<rparr>, w')"
    if "(searchType = ''all'' \<or> searchType = ''items'') \<and> discover ''item-service'' d = Inr s
        \<and> axios net (searchRequest (urlOf s) query) w = (Inl e', w')"
    using that by (auto simp: performGlobalSearch_def Let_def axios_get_search)
qed

theorem global_search_leaves_lists_alone_witness:
  "performGlobalSearch ''arroz'' ''lists'' healthyDisk answering \<lparr>clock = 0, sent = []\<rparr>
     = (\<lparr>items = JArr [], lists = JArr []\<rparr>, \<lparr>clock = 0, sent = []\<rparr>)
   \<and> performGlobalSearch ''arroz'' ''items'' \<lparr>registryFile = Missing, writable = True, protoHealthy = False, memberHealthy = []\<rparr>
       answering \<lparr>clock = 0, sent = []\<rparr>
     = (\<lparr>items = JArr [], lists = JArr []\<rparr>, \<lparr>clock = 0, sent = []\<rparr>)
   \<and> performGlobalSearch ''arroz'' ''all'' healthyDisk refusing \<lparr>clock = 0, sent = []\<rparr>
     = (\<lparr>items = JArr [], lists = JArr []\<rparr>,
        \<lparr>clock = 1, sent = [searchRequest ''http://localhost:3002'' ''arroz'']\<rparr>)
   \<and> sent (snd (performGlobalSearch ''arroz'' ''items'' healthyDisk answering
        \<lparr>clock = 0, sent = []\<rparr>)) = [searchRequest ''http://localhost:3002'' ''arroz'']"
proof -
  let ?w = "\<lparr>clock = 0, sent = []\<rparr>"
  let ?e = "\<lparr>message = ''connect ECONNREFUSED 127.0.0.1:3002'', code = Some ''ECONNREFUSED'',
           response = None\<rparr>"
  have dm: "discover ''item-service'' \<lparr>registryFile = Missing, writable = True, protoHealthy = False, memberHealthy = []\<rparr>
      = Inl (ServiceNotFound ''item-service'')"
    by (simp add: discover_absent readRegistry_def objectPrototype_def)
  have u: "urlOf (Registered (exampleService ''http://localhost:3002'' True 102)) = ''http://localhost:3002''"
    by (simp add: exampleService_def)
  have ax: "axios refusing (searchRequest ''http://localhost:3002'' ''arroz'') ?w
      = (Inl ?e, \<lparr>clock = 1, sent = [searchRequest ''http://localhost:3002'' ''arroz'']\<rparr>)"
    by (simp add: axios_def refusing_def)
  show ?thesis
    using global_search_leaves_lists_alone [where query = "''arroz''" and searchType = "''lists''"
        and d = healthyDisk and net = answering and w = ?w]
      global_search_leaves_lists_alone [where query = "''arroz''" and searchType = "''items''"
        and d = "\<lparr>registryFile = Missing, writable = True, protoHealthy = False, memberHealthy = []\<rparr>" and net = answering and w = ?w
        and e = "ServiceNotFound ''item-service''"]
      global_search_leaves_lists_alone [where query = "''arroz''" and searchType = "''all''"
        and d = healthyDisk and net = refusing and w = ?w
        and s = "Registered (exampleService ''http://localhost:3002'' True 102)" and e' = ?e
        and w' = "\<lparr>clock = 1, sent = [searchRequest ''http://localhost:3002'' ''arroz'']\<rparr>"]
      global_search_leaves_lists_alone [where query = "''arroz''" and searchType = "''items''"
        and d = healthyDisk and net = answering and w = ?w]
      dm u ax healthyDisk_discover
    by simp
qed

section \<open>Dashboard aggregation\<close>

lemma getProp_truthy: "truthy v \<Longrightarrow> \<exists>x. getProp v p = Inr x"
  by (cases v) simp_all

lemma optProp_truthy: "truthy v \<Longrightarrow> getProp v p = Inr (optProp v p)"
  by (cases v) (simp_all add: optProp_def)

lemma userView_prints: "namePrints usr \<longleftrightarrow> (\<exists>view. userView usr = Inr view)"
proof (cases "truthy usr")
  case False
  then show ?thesis by (simp add: userView_def namePrints_def)
next
  case True
  note g = optProp_truthy [OF True]
  show ?thesis
    by (cases "toStr (optProp usr ''firstName'')"; cases "toStr (optProp usr ''lastName'')")
       (simp_all add: userView_def namePrints_def printable_def True g)
qed

lemma userView_throws:
  "userView usr = Inl e \<Longrightarrow>
   aggregateDashboardData usr d net w = (Inl e, w)
   \<and> statusCode (fst (dashboardHandler d net usr w)) = 500"
  by (simp add: aggregateDashboardData_def dashboardHandler_def)

lemma userServiceStats_frame:
  assumes "userServiceStats d net (dash, w) = (dash', w')"
  shows "timestamp dash' = timestamp dash" "user dash' = user dash"
    "itemService (services dash') = itemService (services dash)"
    "listService (services dash') = listService (services dash)"
    "totalItems (summary dash') = totalItems (summary dash)"
    "activeItems (summary dash') = activeItems (summary dash)"
    "totalLists (summary dash') = totalLists (summary dash)"
    "activeLists (summary dash') = activeLists (summary dash)"
    "userLists (summary dash') = userLists (summary dash)"
    "categories (summary dash') = categories (summary dash)"
  using assms
  by (auto simp: userServiceStats_def Let_def split: sum.splits prod.splits)

lemma itemServiceStats_frame:
  assumes "itemServiceStats d net (dash, w) = (dash', w')"
  shows "timestamp dash' = timestamp dash" "user dash' = user dash"
    "userService (services dash') = userService (services dash)"
    "listService (services dash') = listService (services dash)"
    "totalUsers (summary dash') = totalUsers (summary dash)"
    "totalLists (summary dash') = totalLists (summary dash)"
    "activeLists (summary dash') = activeLists (summary dash)"
    "userLists (summary dash') = userLists (summary dash)"
  using assms
  by (auto simp: itemServiceStats_def Let_def split: sum.splits prod.splits)

lemma listServiceStats_frame:
  assumes "listServiceStats usr d net (dash, w) = (dash', w')"
  shows "timestamp dash' = timestamp dash" "user dash' = user dash"
    "userService (services dash') = userService (services dash)"
    "itemService (services dash') = itemService (services dash)"
    "totalUsers (summary dash') = totalUsers (summary dash)"
    "totalItems (summary dash') = totalItems (summary dash)"
    "activeItems (summary dash') = activeItems (summary dash)"
    "categories (summary dash') = categories (summary dash)"
  using assms
  by (auto simp: listServiceStats_def Let_def split: sum.splits prod.splits if_splits)

lemma userServiceStats_probe_fails:
  "healthProbe ''user-service'' d net w = (Inl e, v) \<Longrightarrow>
   userServiceStats d net (dash, w) =
     (dash\<lparr>services := (services dash)\<lparr>userService := unhealthySection e\<rparr>\<rparr>, v)"
  by (auto simp: healthProbe_def userServiceStats_def Let_def split: sum.splits)

lemma itemServiceStats_probe_fails:
  "healthProbe ''item-service'' d net w = (Inl e, v) \<Longrightarrow>
   itemServiceStats d net (dash, w) =
     (dash\<lparr>services := (services dash)\<lparr>itemService := unhealthySection e\<rparr>\<rparr>, v)"
  by (auto simp: healthProbe_def itemServiceStats_def Let_def split: sum.splits)

lemma listServiceStats_probe_fails:
  "healthProbe ''list-service'' d net w = (Inl e, v) \<Longrightarrow>
   listServiceStats usr d net (dash, w) =
     (dash\<lparr>services := (services dash)\<lparr>listService := unhealthySection e\<rparr>\<rparr>, v)"
  by (auto simp: healthProbe_def listServiceStats_def Let_def split: sum.splits)

lemma userServiceStats_probe_ok:
  "healthProbe ''user-service'' d net w = (Inr h, v) \<Longrightarrow>
   databaseCount h ''userCount'' = Inr c \<Longrightarrow>
   userServiceStats d net (dash, w) =
     (dash\<lparr>services := (services dash)\<lparr>userService := healthySection [(''userCount'', c)]\<rparr>,
           summary := (summary dash)\<lparr>totalUsers := c\<rparr>\<rparr>, v)"
  by (auto simp: healthProbe_def userServiceStats_def Let_def split: sum.splits)

lemma itemServiceStats_probe_ok:
  "healthProbe ''item-service'' d net w = (Inr h, v) \<Longrightarrow>
   databaseCount h ''itemCount'' = Inr c \<Longrightarrow>
   databaseCount h ''activeItems'' = Inr a \<Longrightarrow>
   discover ''item-service'' d = Inr s \<Longrightarrow>
   axios_get net (urlOf s @ ''/categories'') [] [] (Some 5000) v = (Inr r, v') \<Longrightarrow>
   dataLength r = Inr n \<Longrightarrow>
   itemServiceStats d net (dash, w) =
     (dash\<lparr>services := (services dash)
             \<lparr>itemService := healthySection [(''itemCount'', c), (''activeItems'', a)]\<rparr>,
           summary := (summary dash)\<lparr>totalItems := c, activeItems := a, categories := n\<rparr>\<rparr>, v')"
  by (auto simp: healthProbe_def itemServiceStats_def Let_def split: sum.splits)

lemma listServiceStats_probe_ok:
  assumes "healthProbe ''list-service'' d net w = (Inr h, v)"
    and "databaseCount h ''listCount'' = Inr c"
    and "databaseCount h ''activeLists'' = Inr a"
    and "listServiceStats usr d net (dash, w) = (dash', w')"
  shows "listService (services dash') = healthySection [(''listCount'', c), (''activeLists'', a)]"
    "totalLists (summary dash') = c" "activeLists (summary dash') = a"
  using assms
  by (auto simp: healthProbe_def listServiceStats_def Let_def split: sum.splits prod.splits if_splits)

lemma aggregate_named:
  assumes "userView usr = Inr view"
    and "userServiceStats d net (initialDashboard (clock w) view, w) = (d1, w1)"
    and "itemServiceStats d net (d1, w1) = (d2, w2)"
    and "listServiceStats usr d net (d2, w2) = (dash, w3)"
  shows "aggregateDashboardData usr d net w = (Inr dash, w3)"
  using assms by (simp add: aggregateDashboardData_def)

lemma aggregate_completes:
  assumes "namePrints usr"
  shows "\<exists>dash w'. aggregateDashboardData usr d net w = (Inr dash, w')"
proof -
  obtain view where v: "userView usr = Inr view" using assms userView_prints by blast
  obtain d1 w1 where 1: "userServiceStats d net (initialDashboard (clock w) view, w) = (d1, w1)"
    by (cases "userServiceStats d net (initialDashboard (clock w) view, w)")
  obtain d2 w2 where 2: "itemServiceStats d net (d1, w1) = (d2, w2)"
    by (cases "itemServiceStats d net (d1, w1)")
  obtain dash w3 where 3: "listServiceStats usr d net (d2, w2) = (dash, w3)"
    by (cases "listServiceStats usr d net (d2, w2)")
  from aggregate_named [OF v 1 2 3] show ?thesis by blast
qed

lemma dashboardHandler_200:
  "namePrints usr \<Longrightarrow> statusCode (fst (dashboardHandler d net usr w)) = 200"
proof -
  assume "namePrints usr"
  from aggregate_completes [OF this] obtain dash w' where
    "aggregateDashboardData usr d net w = (Inr dash, w')" by blast
  then show ?thesis by (simp add: dashboardHandler_def)
qed

lemma initialDashboard_summary:
  "totalUsers (summary (initialDashboard now view)) = JNum ''0''"
  "totalItems (summary (initialDashboard now view)) = JNum ''0''"
  "activeItems (summary (initialDashboard now view)) = JNum ''0''"
  "totalLists (summary (initialDashboard now view)) = JNum ''0''"
  "activeLists (summary (initialDashboard now view)) = JNum ''0''"
  "userLists (summary (initialDashboard now view)) = JNum ''0''"
  "categories (summary (initialDashboard now view)) = JNum ''0''"
  by (simp_all add: initialDashboard_def)


text \<open>After the health probe: when \<open>/health\<close> of the item service answers and
  \<open>/categories\<close> then throws, the item section is marked unhealthy with that error while
  the two counts already stored in the summary stay.\<close>

lemma item_categories_failure:
  assumes "healthProbe ''item-service'' d net w = (Inr h, v)"
    and "databaseCount h ''itemCount'' = Inr c"
    and "databaseCount h ''activeItems'' = Inr a"
    and "discover ''item-service'' d = Inr s"
    and "axios_get net (urlOf s @ ''/categories'') [] [] (Some 5000) v = (Inl e, v')"
  shows "itemServiceStats d net (dash, w) =
     (dash\<lparr>services := (services dash)\<lparr>itemService := unhealthySection e\<rparr>,
           summary := (summary dash)\<lparr>totalItems := c, activeItems := a\<rparr>\<rparr>, v')"
  using assms
  by (auto simp: healthProbe_def itemServiceStats_def Let_def split: sum.splits)

text \<open>A probe that answers without a body to read: \<open>data\<close> is \<open>undefined\<close> or \<open>null\<close>
  and reading \<open>database\<close> from it throws, inside the \<open>try\<close> of the block.\<close>

lemma userServiceStats_body_fails:
  "healthProbe ''user-service'' d net w = (Inr h, v) \<Longrightarrow>
   databaseCount h ''userCount'' = Inl e \<Longrightarrow>
   userServiceStats d net (dash, w) =
     (dash\<lparr>services := (services dash)\<lparr>userService := unhealthySection e\<rparr>\<rparr>, v)"
  by (auto simp: healthProbe_def userServiceStats_def Let_def split: sum.splits)

lemma itemServiceStats_body_fails:
  "healthProbe ''item-service'' d net w = (Inr h, v) \<Longrightarrow>
   databaseCount h ''itemCount'' = Inl e \<Longrightarrow>
   itemServiceStats d net (dash, w) =
     (dash\<lparr>services := (services dash)\<lparr>itemService := unhealthySection e\<rparr>\<rparr>, v)"
  by (auto simp: healthProbe_def itemServiceStats_def Let_def split: sum.splits)

lemma listServiceStats_body_fails:
  "healthProbe ''list-service'' d net w = (Inr h, v) \<Longrightarrow>
   databaseCount h ''listCount'' = Inl e \<Longrightarrow>
   listServiceStats usr d net (dash, w) =
     (dash\<lparr>services := (services dash)\<lparr>listService := unhealthySection e\<rparr>\<rparr>, v)"
  by (auto simp: healthProbe_def listServiceStats_def Let_def split: sum.splits)

lemma item_categories_body_fails:
  assumes "healthProbe ''item-service'' d net w = (Inr h, v)"
    and "databaseCount h ''itemCount'' = Inr c"
    and "databaseCount h ''activeItems'' = Inr a"
    and "discover ''item-service'' d = Inr s"
    and "axios_get net (urlOf s @ ''/categories'') [] [] (Some 5000) v = (Inr r, v')"
    and "dataLength r = Inl e"
  shows "itemServiceStats d net (dash, w) =
     (dash\<lparr>services := (services dash)\<lparr>itemService := unhealthySection e\<rparr>,
           summary := (summary dash)\<lparr>totalItems := c, activeItems := a\<rparr>\<rparr>, v')"
  using assms
  by (auto simp: healthProbe_def itemServiceStats_def Let_def split: sum.splits)

lemma dashboard_details:
  assumes v: "userView usr = Inr view"
    and 1: "userServiceStats d net (initialDashboard (clock w) view, w) = (d1, w1)"
    and 2: "itemServiceStats d net (d1, w1) = (d2, w2)"
    and 3: "listServiceStats usr d net (d2, w2) = (dash, w3)"
  shows handler: "dashboardHandler d net usr w =
          (\<lparr>statusCode = 200, resHeaders = [],
            sentBody = JObj [(''success'', JBool True), (''data'', dashboardJson dash)]\<rparr>, w3)"
    and user_fails: "healthProbe ''user-service'' d net w = (Inl eU, vU) \<longrightarrow>
            userService (services dash)
              = JObj [(''status'', JStr ''unhealthy''), (''error'', JStr (message eU))]
          \<and> totalUsers (summary dash) = JNum ''0''"
    and item_fails: "healthProbe ''item-service'' d net w1 = (Inl eI, vI) \<longrightarrow>
            itemService (services dash)
              = JObj [(''status'', JStr ''unhealthy''), (''error'', JStr (message eI))]
          \<and> totalItems (summary dash) = JNum ''0''
          \<and> activeItems (summary dash) = JNum ''0''
          \<and> categories (summary dash) = JNum ''0''"
    and list_fails: "healthProbe ''list-service'' d net w2 = (Inl eL, vL) \<longrightarrow>
            listService (services dash)
              = JObj [(''status'', JStr ''unhealthy''), (''error'', JStr (message eL))]
          \<and> totalLists (summary dash) = JNum ''0''
          \<and> activeLists (summary dash) = JNum ''0''
          \<and> userLists (summary dash) = JNum ''0''"
    and user_ok: "healthProbe ''user-service'' d net w = (Inr hU, xU)
          \<and> databaseCount hU ''userCount'' = Inr cU \<longrightarrow>
            userService (services dash) = healthySection [(''userCount'', cU)]
          \<and> totalUsers (summary dash) = cU"
    and item_ok: "healthProbe ''item-service'' d net w1 = (Inr hI, xI)
          \<and> databaseCount hI ''itemCount'' = Inr cI
          \<and> databaseCount hI ''activeItems'' = Inr aI
          \<and> discover ''item-service'' d = Inr sI
          \<and> axios_get net (urlOf sI @ ''/categories'') [] [] (Some 5000) xI = (Inr rI, yI)
          \<and> dataLength rI = Inr nI \<longrightarrow>
            itemService (services dash)
              = healthySection [(''itemCount'', cI), (''activeItems'', aI)]
          \<and> totalItems (summary dash) = cI
          \<and> activeItems (summary dash) = aI
          \<and> categories (summary dash) = nI"
    and item_categories: "healthProbe ''item-service'' d net w1 = (Inr hI, xI)
          \<and> databaseCount hI ''itemCount'' = Inr cI
          \<and> databaseCount hI ''activeItems'' = Inr aI
          \<and> discover ''item-service'' d = Inr sI
          \<and> axios_get net (urlOf sI @ ''/categories'') [] [] (Some 5000) xI = (Inl eC, yC) \<longrightarrow>
            itemService (services dash)
              = JObj [(''status'', JStr ''unhealthy''), (''error'', JStr (message eC))]
          \<and> totalItems (summary dash) = cI
          \<and> activeItems (summary dash) = aI
          \<and> categories (summary dash) = JNum ''0''"
    and list_ok: "healthProbe ''list-service'' d net w2 = (Inr hL, xL)
          \<and> databaseCount hL ''listCount'' = Inr cL
          \<and> databaseCount hL ''activeLists'' = Inr aL \<longrightarrow>
            listService (services dash)
              = healthySection [(''listCount'', cL), (''activeLists'', aL)]
          \<and> totalLists (summary dash) = cL
          \<and> activeLists (summary dash) = aL"
    and user_body: "healthProbe ''user-service'' d net w = (Inr hU, xU)
          \<and> databaseCount hU ''userCount'' = Inl bU \<longrightarrow>
            userService (services dash)
              = JObj [(''status'', JStr ''unhealthy''), (''error'', JStr (message bU))]
          \<and> totalUsers (summary dash) = JNum ''0''"
    and item_body: "healthProbe ''item-service'' d net w1 = (Inr hI, xI)
          \<and> databaseCount hI ''itemCount'' = Inl bI \<longrightarrow>
            itemService (services dash)
              = JObj [(''status'', JStr ''unhealthy''), (''error'', JStr (message bI))]
          \<and> totalItems (summary dash) = JNum ''0''
          \<and> activeItems (summary dash) = JNum ''0''
          \<and> categories (summary dash) = JNum ''0''"
    and categories_body: "healthProbe ''item-service'' d net w1 = (Inr hI, xI)
          \<and> databaseCount hI ''itemCount'' = Inr cI
          \<and> databaseCount hI ''activeItems'' = Inr aI
          \<and> discover ''item-service'' d = Inr sI
          \<and> axios_get net (urlOf sI @ ''/categories'') [] [] (Some 5000) xI = (Inr rI, yI)
          \<and> dataLength rI = Inl bC \<longrightarrow>
            itemService (services dash)
              = JObj [(''status'', JStr ''unhealthy''), (''error'', JStr (message bC))]
          \<and> totalItems (summary dash) = cI
          \<and> activeItems (summary dash) = aI
          \<and> categories (summary dash) = JNum ''0''"
    and list_body: "healthProbe ''list-service'' d net w2 = (Inr hL, xL)
          \<and> databaseCount hL ''listCount'' = Inl bL \<longrightarrow>
            listService (services dash)
              = JObj [(''status'', JStr ''unhealthy''), (''error'', JStr (message bL))]
          \<and> totalLists (summary dash) = JNum ''0''
          \<and> activeLists (summary dash) = JNum ''0''
          \<and> userLists (summary dash) = JNum ''0''"
proof -
  note f1 = userServiceStats_frame [OF 1]
  note f2 = itemServiceStats_frame [OF 2]
  note f3 = listServiceStats_frame [OF 3]
  show "dashboardHandler d net usr w =
          (\<lparr>statusCode = 200, resHeaders = [],
            sentBody = JObj [(''success'', JBool True), (''data'', dashboardJson dash)]\<rparr>, w3)"
    by (simp add: dashboardHandler_def aggregate_named [OF v 1 2 3])
  show "healthProbe ''user-service'' d net w = (Inl eU, vU) \<longrightarrow>
            userService (services dash)
              = JObj [(''status'', JStr ''unhealthy''), (''error'', JStr (message eU))]
          \<and> totalUsers (summary dash) = JNum ''0''"
  proof
    assume "healthProbe ''user-service'' d net w = (Inl eU, vU)"
    from userServiceStats_probe_fails [OF this, of "initialDashboard (clock w) view"] 1
    have "d1 = (initialDashboard (clock w) view)
            \<lparr>services := (services (initialDashboard (clock w) view))
               \<lparr>userService := unhealthySection eU\<rparr>\<rparr>" by simp
    then have "userService (services d1) = unhealthySection eU"
      and "totalUsers (summary d1) = JNum ''0''"
      by (simp_all add: initialDashboard_summary)
    then show "userService (services dash)
              = JObj [(''status'', JStr ''unhealthy''), (''error'', JStr (message eU))]
          \<and> totalUsers (summary dash) = JNum ''0''"
      by (simp add: f2 f3 unhealthySection_def)
  qed
  show "healthProbe ''item-service'' d net w1 = (Inl eI, vI) \<longrightarrow>
            itemService (services dash)
              = JObj [(''status'', JStr ''unhealthy''), (''error'', JStr (message eI))]
          \<and> totalItems (summary dash) = JNum ''0''
          \<and> activeItems (summary dash) = JNum ''0''
          \<and> categories (summary dash) = JNum ''0''"
  proof
    assume "healthProbe ''item-service'' d net w1 = (Inl eI, vI)"
    from itemServiceStats_probe_fails [OF this, of d1] 2
    have "d2 = d1\<lparr>services := (services d1)\<lparr>itemService := unhealthySection eI\<rparr>\<rparr>" by simp
    then have "itemService (services d2) = unhealthySection eI"
      and "totalItems (summary d2) = JNum ''0''"
      and "activeItems (summary d2) = JNum ''0''"
      and "categories (summary d2) = JNum ''0''"
      by (simp_all add: f1 initialDashboard_summary)
    then show "itemService (services dash)
              = JObj [(''status'', JStr ''unhealthy''), (''error'', JStr (message eI))]
          \<and> totalItems (summary dash) = JNum ''0''
          \<and> activeItems (summary dash) = JNum ''0''
          \<and> categories (summary dash) = JNum ''0''"
      by (simp add: f3 unhealthySection_def)
  qed
  show "healthProbe ''list-service'' d net w2 = (Inl eL, vL) \<longrightarrow>
            listService (services dash)
              = JObj [(''status'', JStr ''unhealthy''), (''error'', JStr (message eL))]
          \<and> totalLists (summary dash) = JNum ''0''
          \<and> activeLists (summary dash) = JNum ''0''
          \<and> userLists (summary dash) = JNum ''0''"
  proof
    assume "healthProbe ''list-service'' d net w2 = (Inl eL, vL)"
    from listServiceStats_probe_fails [OF this, of usr d2] 3
    have "dash = d2\<lparr>services := (services d2)\<lparr>listService := unhealthySection eL\<rparr>\<rparr>" by simp
    then show "listService (services dash)
              = JObj [(''status'', JStr ''unhealthy''), (''error'', JStr (message eL))]
          \<and> totalLists (summary dash) = JNum ''0''
          \<and> activeLists (summary dash) = JNum ''0''
          \<and> userLists (summary dash) = JNum ''0''"
      by (simp add: f1 f2 initialDashboard_summary unhealthySection_def)
  qed
  show "healthProbe ''user-service'' d net w = (Inr hU, xU)
          \<and> databaseCount hU ''userCount'' = Inr cU \<longrightarrow>
            userService (services dash) = healthySection [(''userCount'', cU)]
          \<and> totalUsers (summary dash) = cU"
  proof
    assume a: "healthProbe ''user-service'' d net w = (Inr hU, xU)
          \<and> databaseCount hU ''userCount'' = Inr cU"
    from userServiceStats_probe_ok [of d net w hU xU cU "initialDashboard (clock w) view"] a 1
    have "d1 = (initialDashboard (clock w) view)
            \<lparr>services := (services (initialDashboard (clock w) view))
               \<lparr>userService := healthySection [(''userCount'', cU)]\<rparr>,
             summary := (summary (initialDashboard (clock w) view))\<lparr>totalUsers := cU\<rparr>\<rparr>"
      by simp
    then have "userService (services d1) = healthySection [(''userCount'', cU)]"
      and "totalUsers (summary d1) = cU"
      by simp_all
    then show "userService (services dash) = healthySection [(''userCount'', cU)]
          \<and> totalUsers (summary dash) = cU"
      by (simp add: f2 f3)
  qed
  show "healthProbe ''item-service'' d net w1 = (Inr hI, xI)
          \<and> databaseCount hI ''itemCount'' = Inr cI
          \<and> databaseCount hI ''activeItems'' = Inr aI
          \<and> discover ''item-service'' d = Inr sI
          \<and> axios_get net (urlOf sI @ ''/categories'') [] [] (Some 5000) xI = (Inr rI, yI)
          \<and> dataLength rI = Inr nI \<longrightarrow>
            itemService (services dash)
              = healthySection [(''itemCount'', cI), (''activeItems'', aI)]
          \<and> totalItems (summary dash) = cI
          \<and> activeItems (summary dash) = aI
          \<and> categories (summary dash) = nI"
  proof
    assume a: "healthProbe ''item-service'' d net w1 = (Inr hI, xI)
          \<and> databaseCount hI ''itemCount'' = Inr cI
          \<and> databaseCount hI ''activeItems'' = Inr aI
          \<and> discover ''item-service'' d = Inr sI
          \<and> axios_get net (urlOf sI @ ''/categories'') [] [] (Some 5000) xI = (Inr rI, yI)
          \<and> dataLength rI = Inr nI"
    from itemServiceStats_probe_ok [of d net w1 hI xI cI aI sI rI yI nI d1] a 2
    have "d2 = d1\<lparr>services := (services d1)
             \<lparr>itemService := healthySection [(''itemCount'', cI), (''activeItems'', aI)]\<rparr>,
           summary := (summary d1)\<lparr>totalItems := cI, activeItems := aI, categories := nI\<rparr>\<rparr>"
      by simp
    then have "itemService (services d2)
              = healthySection [(''itemCount'', cI), (''activeItems'', aI)]"
      and "totalItems (summary d2) = cI" and "activeItems (summary d2) = aI"
      and "categories (summary d2) = nI"
      by simp_all
    then show "itemService (services dash)
              = healthySection [(''itemCount'', cI), (''activeItems'', aI)]
          \<and> totalItems (summary dash) = cI
          \<and> activeItems (summary dash) = aI
          \<and> categories (summary dash) = nI"
      by (simp add: f3)
  qed
  show "healthProbe ''item-service'' d net w1 = (Inr hI, xI)
          \<and> databaseCount hI ''itemCount'' = Inr cI
          \<and> databaseCount hI ''activeItems'' = Inr aI
          \<and> discover ''item-service'' d = Inr sI
          \<and> axios_get net (urlOf sI @ ''/categories'') [] [] (Some 5000) xI = (Inl eC, yC) \<longrightarrow>
            itemService (services dash)
              = JObj [(''status'', JStr ''unhealthy''), (''error'', JStr (message eC))]
          \<and> totalItems (summary dash) = cI
          \<and> activeItems (summary dash) = aI
          \<and> categories (summary dash) = JNum ''0''"
  proof
    assume a: "healthProbe ''item-service'' d net w1 = (Inr hI, xI)
          \<and> databaseCount hI ''itemCount'' = Inr cI
          \<and> databaseCount hI ''activeItems'' = Inr aI
          \<and> discover ''item-service'' d = Inr sI
          \<and> axios_get net (urlOf sI @ ''/categories'') [] [] (Some 5000) xI = (Inl eC, yC)"
    from item_categories_failure [of d net w1 hI xI cI aI sI eC yC d1] a 2
    have "d2 = d1\<lparr>services := (services d1)\<lparr>itemService := unhealthySection eC\<rparr>,
           summary := (summary d1)\<lparr>totalItems := cI, activeItems := aI\<rparr>\<rparr>"
      by simp
    then have "itemService (services d2) = unhealthySection eC"
      and "totalItems (summary d2) = cI" and "activeItems (summary d2) = aI"
      and "categories (summary d2) = JNum ''0''"
      by (simp_all add: f1 initialDashboard_summary)
    then show "itemService (services dash)
              = JObj [(''status'', JStr ''unhealthy''), (''error'', JStr (message eC))]
          \<and> totalItems (summary dash) = cI
          \<and> activeItems (summary dash) = aI
          \<and> categories (summary dash) = JNum ''0''"
      by (simp add: f3 unhealthySection_def)
  qed
  show "healthProbe ''list-service'' d net w2 = (Inr hL, xL)
          \<and> databaseCount hL ''listCount'' = Inr cL
          \<and> databaseCount hL ''activeLists'' = Inr aL \<longrightarrow>
            listService (services dash)
              = healthySection [(''listCount'', cL), (''activeLists'', aL)]
          \<and> totalLists (summary dash) = cL
          \<and> activeLists (summary dash) = aL"
  proof
    assume a: "healthProbe ''list-service'' d net w2 = (Inr hL, xL)
          \<and> databaseCount hL ''listCount'' = Inr cL
          \<and> databaseCount hL ''activeLists'' = Inr aL"
    then have p: "healthProbe ''list-service'' d net w2 = (Inr hL, xL)"
      and c: "databaseCount hL ''listCount'' = Inr cL"
      and b: "databaseCount hL ''activeLists'' = Inr aL" by simp_all
    from listServiceStats_probe_ok [OF p c b 3]
    show "listService (services dash)
              = healthySection [(''listCount'', cL), (''activeLists'', aL)]
          \<and> totalLists (summary dash) = cL
          \<and> activeLists (summary dash) = aL"
      by simp
  qed
  show "healthProbe ''user-service'' d net w = (Inr hU, xU)
          \<and> databaseCount hU ''userCount'' = Inl bU \<longrightarrow>
            userService (services dash)
              = JObj [(''status'', JStr ''unhealthy''), (''error'', JStr (message bU))]
          \<and> totalUsers (summary dash) = JNum ''0''"
  proof
    assume a: "healthProbe ''user-service'' d net w = (Inr hU, xU)
          \<and> databaseCount hU ''userCount'' = Inl bU"
    from userServiceStats_body_fails [of d net w hU xU bU "initialDashboard (clock w) view"] a 1
    have "d1 = (initialDashboard (clock w) view)
            \<lparr>services := (services (initialDashboard (clock w) view))
               \<lparr>userService := unhealthySection bU\<rparr>\<rparr>" by simp
    then have "userService (services d1) = unhealthySection bU"
      and "totalUsers (summary d1) = JNum ''0''"
      by (simp_all add: initialDashboard_summary)
    then show "userService (services dash)
              = JObj [(''status'', JStr ''unhealthy''), (''error'', JStr (message bU))]
          \<and> totalUsers (summary dash) = JNum ''0''"
      by (simp add: f2 f3 unhealthySection_def)
  qed
  show "healthProbe ''item-service'' d net w1 = (Inr hI, xI)
          \<and> databaseCount hI ''itemCount'' = Inl bI \<longrightarrow>
            itemService (services dash)
              = JObj [(''status'', JStr ''unhealthy''), (''error'', JStr (message bI))]
          \<and> totalItems (summary dash) = JNum ''0''
          \<and> activeItems (summary dash) = JNum ''0''
          \<and> categories (summary dash) = JNum ''0''"
  proof
    assume a: "healthProbe ''item-service'' d net w1 = (Inr hI, xI)
          \<and> databaseCount hI ''itemCount'' = Inl bI"
    from itemServiceStats_body_fails [of d net w1 hI xI bI d1] a 2
    have "d2 = d1\<lparr>services := (services d1)\<lparr>itemService := unhealthySection bI\<rparr>\<rparr>" by simp
    then have "itemService (services d2) = unhealthySection bI"
      and "totalItems (summary d2) = JNum ''0''"
      and "activeItems (summary d2) = JNum ''0''"
      and "categories (summary d2) = JNum ''0''"
      by (simp_all add: f1 initialDashboard_summary)
    then show "itemService (services dash)
              = JObj [(''status'', JStr ''unhealthy''), (''error'', JStr (message bI))]
          \<and> totalItems (summary dash) = JNum ''0''
          \<and> activeItems (summary dash) = JNum ''0''
          \<and> categories (summary dash) = JNum ''0''"
      by (simp add: f3 unhealthySection_def)
  qed
  show "healthProbe ''item-service'' d net w1 = (Inr hI, xI)
          \<and> databaseCount hI ''itemCount'' = Inr cI
          \<and> databaseCount hI ''activeItems'' = Inr aI
          \<and> discover ''item-service'' d = Inr sI
          \<and> axios_get net (urlOf sI @ ''/categories'') [] [] (Some 5000) xI = (Inr rI, yI)
          \<and> dataLength rI = Inl bC \<longrightarrow>
            itemService (services dash)
              = JObj [(''status'', JStr ''unhealthy''), (''error'', JStr (message bC))]
          \<and> totalItems (summary dash) = cI
          \<and> activeItems (summary dash) = aI
          \<and> categories (summary dash) = JNum ''0''"
  proof
    assume a: "healthProbe ''item-service'' d net w1 = (Inr hI, xI)
          \<and> databaseCount hI ''itemCount'' = Inr cI
          \<and> databaseCount hI ''activeItems'' = Inr aI
          \<and> discover ''item-service'' d = Inr sI
          \<and> axios_get net (urlOf sI @ ''/categories'') [] [] (Some 5000) xI = (Inr rI, yI)
          \<and> dataLength rI = Inl bC"
    from item_categories_body_fails [of d net w1 hI xI cI aI sI rI yI bC d1] a 2
    have "d2 = d1\<lparr>services := (services d1)\<lparr>itemService := unhealthySection bC\<rparr>,
           summary := (summary d1)\<lparr>totalItems := cI, activeItems := aI\<rparr>\<rparr>"
      by simp
    then have "itemService (services d2) = unhealthySection bC"
      and "totalItems (summary d2) = cI" and "activeItems (summary d2) = aI"
      and "categories (summary d2) = JNum ''0''"
      by (simp_all add: f1 initialDashboard_summary)
    then show "itemService (services dash)
              = JObj [(''status'', JStr ''unhealthy''), (''error'', JStr (message bC))]
          \<and> totalItems (summary dash) = cI
          \<and> activeItems (summary dash) = aI
          \<and> categories (summary dash) = JNum ''0''"
      by (simp add: f3 unhealthySection_def)
  qed
  show "healthProbe ''list-service'' d net w2 = (Inr hL, xL)
          \<and> databaseCount hL ''listCount'' = Inl bL \<longrightarrow>
            listService (services dash)
              = JObj [(''status'', JStr ''unhealthy''), (''error'', JStr (message bL))]
          \<and> totalLists (summary dash) = JNum ''0''
          \<and> activeLists (summary dash) = JNum ''0''
          \<and> userLists (summary dash) = JNum ''0''"
  proof
    assume a: "healthProbe ''list-service'' d net w2 = (Inr hL, xL)
          \<and> databaseCount hL ''listCount'' = Inl bL"
    from listServiceStats_body_fails [of d net w2 hL xL bL usr d2] a 3
    have "dash = d2\<lparr>services := (services d2)\<lparr>listService := unhealthySection bL\<rparr>\<rparr>" by simp
    then show "listService (services dash)
              = JObj [(''status'', JStr ''unhealthy''), (''error'', JStr (message bL))]
          \<and> totalLists (summary dash) = JNum ''0''
          \<and> activeLists (summary dash) = JNum ''0''
          \<and> userLists (summary dash) = JNum ''0''"
      by (simp add: f1 f2 initialDashboard_summary unhealthySection_def)
  qed
qed

lemma dashboardRoute_admitted:
  "authMiddleware req d net w0 = (Next usr, w) \<Longrightarrow>
   dashboardRoute req d net w0 = dashboardHandler d net usr w"
  by (simp add: dashboardRoute_def protectedRoute_def)

text \<open>
  Against claim C6 as stated, three runs. With every service registered as healthy, the
  user and list services refusing connections and the item service answering \<open>/health\<close>
  but not \<open>/categories\<close>, the item section is marked unhealthy and the summary still
  counts its 12 items, 9 of them active. With a validated principal whose first name does
  not convert to a string, the aggregation throws before its first block and the route
  answers 500. With the user service registered as unhealthy, the route answers 401.
\<close>

theorem failing_section_keeps_counts_counterexample:
  "fst (healthProbe ''user-service'' healthyDisk categoriesDown \<lparr>clock = 0, sent = []\<rparr>)
     = Inl \<lparr>message = ''connect ECONNREFUSED 127.0.0.1'', code = Some ''ECONNREFUSED'',
            response = None\<rparr>
   \<and> fst (aggregateDashboardData exampleUser healthyDisk categoriesDown \<lparr>clock = 0, sent = []\<rparr>)
     = Inr \<lparr>timestamp = 0,
            user = JObj [(''id'', JStr ''u1''), (''name'', JStr ''Ana Silva''),
                         (''email'', JStr ''ana@example.com'')],
            services =
              \<lparr>userService = JObj [(''status'', JStr ''unhealthy''),
                                    (''error'', JStr ''connect ECONNREFUSED 127.0.0.1'')],
               itemService = JObj [(''status'', JStr ''unhealthy''),
                                    (''error'', JStr ''timeout of 5000ms exceeded'')],
               listService = JObj [(''status'', JStr ''unhealthy''),
                                    (''error'', JStr ''connect ECONNREFUSED 127.0.0.1'')]\<rparr>,
            summary =
              \<lparr>totalUsers = JNum ''0'', totalItems = JNum ''12'', activeItems = JNum ''9'',
               totalLists = JNum ''0'', activeLists = JNum ''0'', userLists = JNum ''0'',
               categories = JNum ''0''\<rparr>\<rparr>
   \<and> fst (authMiddleware bearerInbound healthyDisk oddValidation \<lparr>clock = 0, sent = []\<rparr>)
     = Next oddUser
   \<and> fst (dashboardRoute bearerInbound healthyDisk oddValidation \<lparr>clock = 0, sent = []\<rparr>)
     = \<lparr>statusCode = 500, resHeaders = [],
        sentBody = JObj [(''success'', JBool False),
                         (''message'', JStr ''Erro ao carregar dashboard'')]\<rparr>
   \<and> statusCode (fst (dashboardRoute bearerInbound exampleDisk answering
                        \<lparr>clock = 0, sent = []\<rparr>)) = 401"
proof -
  let ?start = "\<lparr>clock = 0, sent = []\<rparr>"
  have d: "discover ''user-service'' exampleDisk = Inl (ServiceUnavailable ''user-service'')"
    by (rule discover_unhealthy [where s = "exampleService ''http://localhost:3001'' False 101"])
       (simp_all add: exampleDisk_read exampleService_def)
  have p: "fst (healthProbe ''user-service'' healthyDisk categoriesDown ?start)
     = Inl \<lparr>message = ''connect ECONNREFUSED 127.0.0.1'', code = Some ''ECONNREFUSED'',
            response = None\<rparr>"
    by (simp add: healthProbe_def healthyDisk_discover exampleService_def axios_get_def
          axios_def categoriesDown_def)
  have v: "userView exampleUser = Inr (JObj [(''id'', JStr ''u1''), (''name'', JStr ''Ana Silva''),
                         (''email'', JStr ''ana@example.com'')])"
    by (simp add: userView_def exampleUser_def)
  have a: "fst (aggregateDashboardData exampleUser healthyDisk categoriesDown ?start)
     = Inr \<lparr>timestamp = 0,
            user = JObj [(''id'', JStr ''u1''), (''name'', JStr ''Ana Silva''),
                         (''email'', JStr ''ana@example.com'')],
            services =
              \<lparr>userService = JObj [(''status'', JStr ''unhealthy''),
                                    (''error'', JStr ''connect ECONNREFUSED 127.0.0.1'')],
               itemService = JObj [(''status'', JStr ''unhealthy''),
                                    (''error'', JStr ''timeout of 5000ms exceeded'')],
               listService = JObj [(''status'', JStr ''unhealthy''),
                                    (''error'', JStr ''connect ECONNREFUSED 127.0.0.1'')]\<rparr>,
            summary =
              \<lparr>totalUsers = JNum ''0'', totalItems = JNum ''12'', activeItems = JNum ''9'',
               totalLists = JNum ''0'', activeLists = JNum ''0'', userLists = JNum ''0'',
               categories = JNum ''0''\<rparr>\<rparr>"
    by (simp add: aggregateDashboardData_def v initialDashboard_def userServiceStats_def
          itemServiceStats_def listServiceStats_def healthyDisk_discover exampleService_def
          axios_get_def axios_def categoriesDown_def databaseCount_def optProp_def orElse_def
          unhealthySection_def healthySection_def Let_def)
  have m: "authMiddleware bearerInbound healthyDisk oddValidation ?start
     = (Next oddUser,
        \<lparr>clock = 2,
         sent = [\<lparr>verb = ''POST'', target = ''http://localhost:3001/auth/validate'',
                  payload = JObj [(''token'', JStr ''abc'')], headers = [], params = [],
                  timeout = Some 5000\<rparr>]\<rparr>)"
    by (simp add: authMiddleware_def bearerInbound_def startsWith_def healthyDisk_discover
          exampleService_def axios_post_def axios_def oddValidation_def)
  have o: "userView oddUser = Inl cannotConvert"
    by (simp add: userView_def oddUser_def)
  have r: "fst (dashboardRoute bearerInbound healthyDisk oddValidation ?start)
     = \<lparr>statusCode = 500, resHeaders = [],
        sentBody = JObj [(''success'', JBool False),
                         (''message'', JStr ''Erro ao carregar dashboard'')]\<rparr>"
    by (simp add: dashboardRoute_admitted [OF m] dashboardHandler_def aggregateDashboardData_def o)
  have u: "statusCode (fst (dashboardRoute bearerInbound exampleDisk answering ?start)) = 401"
    by (simp add: dashboardRoute_def protectedRoute_def authMiddleware_def bearerInbound_def
          startsWith_def d statusCode_rejections)
  from p a m r u show ?thesis by simp
qed

text \<open>
  Claim C6, amended. For a principal whose two name parts convert to strings (among them
  every principal that is \<open>undefined\<close>), whatever the registry holds and whichever calls
  fail, the dashboard aggregation returns a dashboard and never throws, and the handler
  of \<open>GET /api/dashboard\<close>, which is what the route runs once the bearer middleware has let
  the request through, answers 200 with it. These are exactly the principals for which
  the \<open>user\<close> entry can be built. With \<open>w\<close>, \<open>w1\<close> and \<open>w2\<close> the moments at which the
  three blocks start: a section whose probe fails (the service cannot be discovered, its
  \<open>/health\<close> call throws, or the answer has no body to read the counts from) is
  \<open>{status: "unhealthy", error: message}\<close> in the returned dashboard and its numbers in
  the summary are still the initial zero; when the probe of the item service succeeds and
  its \<open>/categories\<close> call then throws or answers without a body, the item section is
  marked unhealthy with that error, \<open>totalItems\<close> and \<open>activeItems\<close> keep the counts of
  the probe and \<open>categories\<close> stays zero; a section whose probe (and, for the item
  service, whose \<open>/categories\<close> call) succeeds carries the counts of its own answer,
  whatever happened to the other sections.
\<close>

theorem dashboard_survives_probe_failures:
  "(namePrints usr \<longrightarrow>
        statusCode (fst (dashboardHandler d net usr w)) = 200
      \<and> (\<exists>dash w'. aggregateDashboardData usr d net w = (Inr dash, w')))
   \<and> (authMiddleware req d net w0 = (Next usr, w) \<longrightarrow>
        dashboardRoute req d net w0 = dashboardHandler d net usr w)
   \<and> (namePrints usr \<longleftrightarrow> (\<exists>view. userView usr = Inr view))
   \<and> (userView usr = Inr view
      \<and> userServiceStats d net (initialDashboard (clock w) view, w) = (d1, w1)
      \<and> itemServiceStats d net (d1, w1) = (d2, w2)
      \<and> listServiceStats usr d net (d2, w2) = (dash, w3)
      \<longrightarrow>
        aggregateDashboardData usr d net w = (Inr dash, w3)
      \<and> dashboardHandler d net usr w =
          (\<lparr>statusCode = 200, resHeaders = [],
            sentBody = JObj [(''success'', JBool True), (''data'', dashboardJson dash)]\<rparr>, w3)
      \<and> (healthProbe ''user-service'' d net w = (Inl eU, vU) \<longrightarrow>
            userService (services dash)
              = JObj [(''status'', JStr ''unhealthy''), (''error'', JStr (message eU))]
          \<and> totalUsers (summary dash) = JNum ''0'')
      \<and> (healthProbe ''item-service'' d net w1 = (Inl eI, vI) \<longrightarrow>
            itemService (services dash)
              = JObj [(''status'', JStr ''unhealthy''), (''error'', JStr (message eI))]
          \<and> totalItems (summary dash) = JNum ''0''
          \<and> activeItems (summary dash) = JNum ''0''
          \<and> categories (summary dash) = JNum ''0'')
      \<and> (healthProbe ''list-service'' d net w2 = (Inl eL, vL) \<longrightarrow>
            listService (services dash)
              = JObj [(''status'', JStr ''unhealthy''), (''error'', JStr (message eL))]
          \<and> totalLists (summary dash) = JNum ''0''
          \<and> activeLists (summary dash) = JNum ''0''
          \<and> userLists (summary dash) = JNum ''0'')
      \<and> (healthProbe ''user-service'' d net w = (Inr hU, xU)
          \<and> databaseCount hU ''userCount'' = Inr cU \<longrightarrow>
            userService (services dash) = healthySection [(''userCount'', cU)]
          \<and> totalUsers (summary dash) = cU)
      \<and> (healthProbe ''item-service'' d net w1 = (Inr hI, xI)
          \<and> databaseCount hI ''itemCount'' = Inr cI
          \<and> databaseCount hI ''activeItems'' = Inr aI
          \<and> discover ''item-service'' d = Inr sI
          \<and> axios_get net (urlOf sI @ ''/categories'') [] [] (Some 5000) xI = (Inr rI, yI)
          \<and> dataLength rI = Inr nI \<longrightarrow>
            itemService (services dash)
              = healthySection [(''itemCount'', cI), (''activeItems'', aI)]
          \<and> totalItems (summary dash) = cI
          \<and> activeItems (summary dash) = aI
          \<and> categories (summary dash) = nI)
      \<and> (healthProbe ''item-service'' d net w1 = (Inr hI, xI)
          \<and> databaseCount hI ''itemCount'' = Inr cI
          \<and> databaseCount hI ''activeItems'' = Inr aI
          \<and> discover ''item-service'' d = Inr sI
          \<and> axios_get net (urlOf sI @ ''/categories'') [] [] (Some 5000) xI = (Inl eC, yC) \<longrightarrow>
            itemService (services dash)
              = JObj [(''status'', JStr ''unhealthy''), (''error'', JStr (message eC))]
          \<and> totalItems (summary dash) = cI
          \<and> activeItems (summary dash) = aI
          \<and> categories (summary dash) = JNum ''0'')
      \<and> (healthProbe ''list-service'' d net w2 = (Inr hL, xL)
          \<and> databaseCount hL ''listCount'' = Inr cL
          \<and> databaseCount hL ''activeLists'' = Inr aL \<longrightarrow>
            listService (services dash)
              = healthySection [(''listCount'', cL), (''activeLists'', aL)]
          \<and> totalLists (summary dash) = cL
          \<and> activeLists (summary dash) = aL)
      \<and> (healthProbe ''user-service'' d net w = (Inr hU, xU)
          \<and> databaseCount hU ''userCount'' = Inl bU \<longrightarrow>
            userService (services dash)
              = JObj [(''status'', JStr ''unhealthy''), (''error'', JStr (message bU))]
          \<and> totalUsers (summary dash) = JNum ''0'')
      \<and> (healthProbe ''item-service'' d net w1 = (Inr hI, xI)
          \<and> databaseCount hI ''itemCount'' = Inl bI \<longrightarrow>
            itemService (services dash)
              = JObj [(''status'', JStr ''unhealthy''), (''error'', JStr (message bI))]
          \<and> totalItems (summary dash) = JNum ''0''
          \<and> activeItems (summary dash) = JNum ''0''
          \<and> categories (summary dash) = JNum ''0'')
      \<and> (healthProbe ''item-service'' d net w1 = (Inr hI, xI)
          \<and> databaseCount hI ''itemCount'' = Inr cI
          \<and> databaseCount hI ''activeItems'' = Inr aI
          \<and> discover ''item-service'' d = Inr sI
          \<and> axios_get net (urlOf sI @ ''/categories'') [] [] (Some 5000) xI = (Inr rI, yI)
          \<and> dataLength rI = Inl bC \<longrightarrow>
            itemService (services dash)
              = JObj [(''status'', JStr ''unhealthy''), (''error'', JStr (message bC))]
          \<and> totalItems (summary dash) = cI
          \<and> activeItems (summary dash) = aI
          \<and> categories (summary dash) = JNum ''0'')
      \<and> (healthProbe ''list-service'' d net w2 = (Inr hL, xL)
          \<and> databaseCount hL ''listCount'' = Inl bL \<longrightarrow>
            listService (services dash)
              = JObj [(''status'', JStr ''unhealthy''), (''error'', JStr (message bL))]
          \<and> totalLists (summary dash) = JNum ''0''
          \<and> activeLists (summary dash) = JNum ''0''
          \<and> userLists (summary dash) = JNum ''0''))"
  (is "?S \<and> ?R \<and> ?E \<and> (?N \<longrightarrow> ?D)")
proof (rule conjI [OF _ conjI [OF _ conjI]])
  show ?S using dashboardHandler_200 aggregate_completes by blast
  show ?R by (simp add: dashboardRoute_admitted)
  show ?E by (rule userView_prints)
  show "?N \<longrightarrow> ?D"
  proof (rule impI)
    assume n: ?N
    from n have v: "userView usr = Inr view"
      and 1: "userServiceStats d net (initialDashboard (clock w) view, w) = (d1, w1)"
      and 2: "itemServiceStats d net (d1, w1) = (d2, w2)"
      and 3: "listServiceStats usr d net (d2, w2) = (dash, w3)"
      by simp_all
    show ?D
      by (intro conjI)
         (rule aggregate_named [OF v 1 2 3], rule dashboard_details(1) [OF v 1 2 3],
          rule dashboard_details(2) [OF v 1 2 3], rule dashboard_details(3) [OF v 1 2 3],
          rule dashboard_details(4) [OF v 1 2 3], rule dashboard_details(5) [OF v 1 2 3],
          rule dashboard_details(6) [OF v 1 2 3], rule dashboard_details(7) [OF v 1 2 3],
          rule dashboard_details(8) [OF v 1 2 3], rule dashboard_details(9) [OF v 1 2 3],
          rule dashboard_details(10) [OF v 1 2 3], rule dashboard_details(11) [OF v 1 2 3],
          rule dashboard_details(12) [OF v 1 2 3])
  qed
qed

theorem dashboard_survives_probe_failures_witness:
  "authMiddleware bearerInbound healthyDisk itemDown \<lparr>clock = 0, sent = []\<rparr>
     = (Next exampleUser,
        \<lparr>clock = 2,
         sent = [\<lparr>verb = ''POST'', target = ''http://localhost:3001/auth/validate'',
                  payload = JObj [(''token'', JStr ''abc'')], headers = [], params = [],
                  timeout = Some 5000\<rparr>]\<rparr>)
   \<and> fst (healthProbe ''item-service'' healthyDisk itemDown
        \<lparr>clock = 4,
         sent = [\<lparr>verb = ''POST'', target = ''http://localhost:3001/auth/validate'',
                  payload = JObj [(''token'', JStr ''abc'')], headers = [], params = [],
                  timeout = Some 5000\<rparr>,
                 \<lparr>verb = ''GET'', target = ''http://localhost:3001/health'',
                  payload = JUndefined, headers = [], params = [], timeout = Some 5000\<rparr>]\<rparr>)
     = Inl \<lparr>message = ''connect ECONNREFUSED 127.0.0.1:3002'', code = Some ''ECONNREFUSED'',
            response = None\<rparr>
   \<and> fst (dashboardRoute bearerInbound healthyDisk itemDown \<lparr>clock = 0, sent = []\<rparr>)
     = \<lparr>statusCode = 200, resHeaders = [],
        sentBody = JObj
          [(''success'', JBool True),
           (''data'', JObj
             [(''timestamp'', JNum ''2''),
              (''user'', JObj [(''id'', JStr ''u1''), (''name'', JStr ''Ana Silva''),
                               (''email'', JStr ''ana@example.com'')]),
              (''services'', JObj
                [(''userService'', JObj [(''status'', JStr ''healthy''),
                    (''userCount'', JNum ''7'')]),
                 (''itemService'', JObj [(''status'', JStr ''unhealthy''),
                    (''error'', JStr ''connect ECONNREFUSED 127.0.0.1:3002'')]),
                 (''listService'', JObj [(''status'', JStr ''healthy''),
                    (''listCount'', JNum ''4''), (''activeLists'', JNum ''3'')])]),
              (''summary'', JObj
                [(''totalUsers'', JNum ''7''), (''totalItems'', JNum ''0''),
                 (''activeItems'', JNum ''0''), (''totalLists'', JNum ''4''),
                 (''activeLists'', JNum ''3''), (''userLists'', JNum ''1''),
                 (''categories'', JNum ''0'')])])]\<rparr>"
proof -
  let ?start = "\<lparr>clock = 0, sent = []\<rparr>"
  let ?post = "\<lparr>verb = ''POST'', target = ''http://localhost:3001/auth/validate'',
                  payload = JObj [(''token'', JStr ''abc'')], headers = [], params = [],
                  timeout = Some 5000\<rparr>"
  let ?get = "\<lambda>u. \<lparr>verb = ''GET'', target = u, payload = JUndefined, headers = [],
                      params = [], timeout = Some 5000\<rparr>"
  let ?admitted = "\<lparr>clock = 2, sent = [?post]\<rparr>"
  let ?afterUser = "\<lparr>clock = 4, sent = [?post, ?get ''http://localhost:3001/health'']\<rparr>"
  let ?afterItem = "\<lparr>clock = 5, sent = [?post, ?get ''http://localhost:3001/health'',
                                   ?get ''http://localhost:3002/health'']\<rparr>"
  let ?afterList = "\<lparr>clock = 7, sent = [?post, ?get ''http://localhost:3001/health'',
                                   ?get ''http://localhost:3002/health'',
                                   ?get ''http://localhost:3003/health'']\<rparr>"
  let ?eI = "\<lparr>message = ''connect ECONNREFUSED 127.0.0.1:3002'', code = Some ''ECONNREFUSED'',
             response = None\<rparr>"
  let ?view = "JObj [(''id'', JStr ''u1''), (''name'', JStr ''Ana Silva''),
                     (''email'', JStr ''ana@example.com'')]"
  let ?hU = "\<lparr>status = 200,
              data = JObj [(''status'', JStr ''healthy''),
                           (''database'', JObj [(''userCount'', JNum ''7'')])]\<rparr>"
  let ?hL = "\<lparr>status = 200,
              data = JObj [(''status'', JStr ''healthy''),
                           (''database'', JObj [(''listCount'', JNum ''4''),
                                                (''activeLists'', JNum ''3'')])]\<rparr>"
  have auth: "authMiddleware bearerInbound healthyDisk itemDown ?start = (Next exampleUser, ?admitted)"
    by (simp add: authMiddleware_def bearerInbound_def startsWith_def healthyDisk_discover
          exampleService_def axios_post_def axios_def itemDown_def)
  have v: "userView exampleUser = Inr ?view"
    by (simp add: userView_def exampleUser_def)
  have np: "namePrints exampleUser"
    by (simp add: namePrints_def printable_def optProp_def exampleUser_def)
  have pU: "healthProbe ''user-service'' healthyDisk itemDown ?admitted = (Inr ?hU, ?afterUser)"
    by (simp add: healthProbe_def healthyDisk_discover exampleService_def axios_get_def
          axios_def itemDown_def startsWith_def)
  have cU: "databaseCount ?hU ''userCount'' = Inr (JNum ''7'')"
    by (simp add: databaseCount_def optProp_def orElse_def)
  have pI: "healthProbe ''item-service'' healthyDisk itemDown ?afterUser = (Inl ?eI, ?afterItem)"
    by (simp add: healthProbe_def healthyDisk_discover exampleService_def axios_get_def
          axios_def itemDown_def startsWith_def)
  have pL: "healthProbe ''list-service'' healthyDisk itemDown ?afterItem = (Inr ?hL, ?afterList)"
    by (simp add: healthProbe_def healthyDisk_discover exampleService_def axios_get_def
          axios_def itemDown_def startsWith_def)
  have cL: "databaseCount ?hL ''listCount'' = Inr (JNum ''4'')"
    and aL: "databaseCount ?hL ''activeLists'' = Inr (JNum ''3'')"
    by (simp_all add: databaseCount_def optProp_def orElse_def)
  obtain d1 where 1: "userServiceStats healthyDisk itemDown (initialDashboard (clock ?admitted) ?view, ?admitted)
      = (d1, ?afterUser)"
    using userServiceStats_probe_ok [OF pU cU] by blast
  obtain d2 where 2: "itemServiceStats healthyDisk itemDown (d1, ?afterUser) = (d2, ?afterItem)"
    using itemServiceStats_probe_fails [OF pI] by blast
  obtain dash w3 where 3: "listServiceStats exampleUser healthyDisk itemDown (d2, ?afterItem) = (dash, w3)"
    by (cases "listServiceStats exampleUser healthyDisk itemDown (d2, ?afterItem)")
  have ul: "userLists (summary dash) = JNum ''1''"
    using 3 userServiceStats_frame(9) [OF 1] itemServiceStats_frame(8) [OF 2]
    by (auto simp: listServiceStats_def healthyDisk_discover exampleService_def axios_get_def
          axios_def itemDown_def startsWith_def databaseCount_def dataLength_def optProp_def
          orElse_def exampleUser_def digit_char_def Let_def)
  have ts: "timestamp dash = 2" "user dash = ?view"
    using userServiceStats_frame(1,2) [OF 1] itemServiceStats_frame(1,2) [OF 2]
      listServiceStats_frame(1,2) [OF 3]
    by (simp_all add: initialDashboard_def)
  note t = dashboard_survives_probe_failures [where d = healthyDisk and net = itemDown
      and usr = exampleUser and w = ?admitted and req = bearerInbound and ?w0.0 = ?start
      and view = ?view and ?d1.0 = d1 and ?w1.0 = ?afterUser
      and ?d2.0 = d2 and ?w2.0 = ?afterItem and dash = dash and ?w3.0 = w3
      and eI = ?eI and vI = ?afterItem
      and hU = ?hU and xU = ?afterUser and cU = "JNum ''7''"
      and hL = ?hL and xL = ?afterList and cL = "JNum ''4''" and aL = "JNum ''3''"]
  from t auth v np 1 2 3 pU cU pI pL cL aL
  have "dashboardRoute bearerInbound healthyDisk itemDown ?start =
          (\<lparr>statusCode = 200, resHeaders = [],
            sentBody = JObj [(''success'', JBool True), (''data'', dashboardJson dash)]\<rparr>, w3)"
    and "userService (services dash) = healthySection [(''userCount'', JNum ''7'')]"
    and "totalUsers (summary dash) = JNum ''7''"
    and "itemService (services dash)
              = JObj [(''status'', JStr ''unhealthy''), (''error'', JStr (message ?eI))]"
    and "totalItems (summary dash) = JNum ''0''"
    and "activeItems (summary dash) = JNum ''0''"
    and "categories (summary dash) = JNum ''0''"
    and "listService (services dash)
              = healthySection [(''listCount'', JNum ''4''), (''activeLists'', JNum ''3'')]"
    and "totalLists (summary dash) = JNum ''4''"
    and "activeLists (summary dash) = JNum ''3''"
    by simp_all
  with ul ts auth pI show ?thesis
    by (simp add: dashboardJson_def healthySection_def show_int_def digit_char_def)
qed

end
